theory Spec2Isabelle
  imports Complex_Main "HOL-Library.AList"
begin

section \<open>The session server of the arena game (server script, \<open>src/unnamed/part_000\<close>)\<close>

text \<open>
  The server is a single-threaded event loop: every handler and every timer callback runs
  to completion. Each source function becomes a function from the server state to the
  server state. JavaScript numbers are modelled as reals (NaN, the infinities and signed
  zeros are not modelled); the arithmetic of the simulation is exact, the floating-point
  operations that \<open>handlePlayerInput\<close> applies to a client's input are parameters (see
  \<open>arith\<close>). A JavaScript \<open>Map\<close> is an association list in insertion
  order: \<open>Map.set\<close> is \<open>AList.update\<close> (an existing key keeps its place, a new key goes
  last), \<open>Map.delete\<close> is \<open>AList.delete\<close>, \<open>Map.get\<close> is \<open>map_of\<close>. The values that the
  environment supplies (\<open>uuidv4()\<close>, \<open>generateLobbyCode()\<close>, \<open>Math.random()\<close>,
  \<open>Date.now()\<close>, the measured \<open>deltaTime\<close>) are parameters of the functions that read
  them.
\<close>

subsection \<open>CONFIG\<close>

definition foodCount :: nat where "foodCount = 100"
definition playerStartSize :: real where "playerStartSize = 1"
definition foodSize :: real where "foodSize = 3 / 10"
definition growthRate :: real where "growthRate = 5 / 100"
definition absorptionThreshold :: real where "absorptionThreshold = 12 / 10"
definition forceMagnitude :: real where "forceMagnitude = 10"
definition respawnThreshold :: real where "respawnThreshold = 3 / 10"
definition respawnAmount :: nat where "respawnAmount = 10"
definition mapWidth :: real where "mapWidth = 20"
definition mapHeight :: real where "mapHeight = 15"
definition maxPlayers :: nat where "maxPlayers = 5"
definition minPlayersToStart :: nat where "minPlayersToStart = 2"
definition countdownTime :: int where "countdownTime = 3"
definition tickRate :: real where "tickRate = 60"

text \<open>\<open>[0x44aa88, 0xaa4444, 0x4444aa, 0xaaaa44, 0xaa44aa]\<close>\<close>

definition playerColors :: "nat list" where
  "playerColors = [4500104, 11158596, 4474026, 11184708, 11158698]"

subsection \<open>Data\<close>

datatype game_state = Lobby | Countdown | Playing

text \<open>
  A player object. \<open>p_input\<close> is the \<open>{x, y}\<close> input object; \<open>p_lastUpdate\<close> is
  \<open>undefined\<close> (\<open>None\<close>) until the first simulation tick writes it.
\<close>

record player =
  p_id :: string
  p_clientId :: string
  p_name :: string
  p_color :: nat
  p_ready :: bool
  p_x :: real
  p_y :: real
  p_size :: real
  p_input :: "real \<times> real"
  p_lastUpdate :: "int option"

text \<open>
  An entry of \<open>clients\<close>. \<open>c_open\<close> stands for \<open>ws.readyState === WebSocket.OPEN\<close>.
\<close>

record client =
  c_id :: string
  c_open :: bool
  c_playerId :: "string option"
  c_lobbyId :: "string option"

record lobby =
  l_players :: "(string \<times> player) list"
  l_gameState :: game_state
  l_foodItems :: "(real \<times> real) list"
  l_countdown :: int
  l_countdownInterval :: "nat option"
  l_gameTickInterval :: "nat option"

datatype message =
    LobbyCreated string
  | Error string
  | Welcome string string string
  | LobbyUpdate "(string \<times> string \<times> bool \<times> nat) list"
  | CountdownMsg int
  | GameStart "(string \<times> real \<times> real \<times> real) list" "(real \<times> real) list"
  | GameUpdate "(string \<times> real \<times> real \<times> real) list"
  | FoodEaten real real string "(real \<times> real) option"
  | PlayerEaten string "string option"
  | YouWereEliminated
  | PlayerDisconnected string
  | GameOver "string option" real
  | ForceLobby
  | PrepareReconnect

text \<open>
  A pending timer: the two \<open>setInterval\<close> callbacks of a lobby and the \<open>setTimeout\<close> of
  \<open>endGame\<close>, with its delay in milliseconds. Each callback closes over the lobby object
  that was registered under the code when the timer was set, and reaches everything else
  through the registry, by the code. As long as that object is the one registered under
  the code, the timer names the code only (the first three constructors). When the object
  leaves the registry (the teardown deletes it, or \<open>createLobby\<close> stores a new object under
  the same code), the object is kept in the list \<open>detached\<close> of the server state and the
  timers that closed over it refer to it by its index there (the last argument of the other
  three constructors).
\<close>

datatype timer =
    CountdownTimer string
  | GameTickTimer string
  | EndGameTimeout nat string
  | DetachedCountdown string nat
  | DetachedGameTick string nat
  | DetachedEndGame nat string nat

text \<open>
  The server state. \<open>outbox\<close> lists every \<open>ws.send\<close> in order, as the connection id and
  the message. \<open>timers\<close> maps the handles of the pending timers to their callbacks.
  \<open>detached\<close> holds the lobby objects that have left the registry.
\<close>

record server =
  clients :: "(string \<times> client) list"
  lobbies :: "(string \<times> lobby) list"
  outbox :: "(string \<times> message) list"
  timers :: "(nat \<times> timer) list"
  nextTimer :: nat
  detached :: "lobby list"

definition initial :: server where
  "initial = \<lparr>clients = [], lobbies = [], outbox = [], timers = [], nextTimer = 0,
     detached = []\<rparr>"

definition DEFAULT_LOBBY :: lobby where
  "DEFAULT_LOBBY = \<lparr>l_players = [], l_gameState = Lobby, l_foodItems = [],
     l_countdown = countdownTime, l_countdownInterval = None, l_gameTickInterval = None\<rparr>"

text \<open>Mutation of the lobby object registered under a code, and of a player object in it.\<close>

definition updLobby :: "string \<Rightarrow> (lobby \<Rightarrow> lobby) \<Rightarrow> server \<Rightarrow> server" where
  "updLobby lobbyId f s = s\<lparr>lobbies := AList.map_entry lobbyId f (lobbies s)\<rparr>"

definition updPlayer :: "string \<Rightarrow> string \<Rightarrow> (player \<Rightarrow> player) \<Rightarrow> server \<Rightarrow> server" where
  "updPlayer lobbyId playerId f =
     updLobby lobbyId (\<lambda>l. l\<lparr>l_players := AList.map_entry playerId f (l_players l)\<rparr>)"

definition setTimer :: "timer \<Rightarrow> server \<Rightarrow> server" where
  "setTimer t s = s\<lparr>timers := timers s @ [(nextTimer s, t)], nextTimer := Suc (nextTimer s)\<rparr>"

definition clearTimer :: "nat option \<Rightarrow> server \<Rightarrow> server" where
  "clearTimer h s = (case h of None \<Rightarrow> s | Some n \<Rightarrow> s\<lparr>timers := AList.delete n (timers s)\<rparr>)"

text \<open>
  \<open>detachLobby\<close> is the bookkeeping for a lobby object that is about to leave the registry:
  the object is appended to \<open>detached\<close> and every pending timer of its code, which closed
  over this object, now refers to it there. The registry itself is left as it is.
\<close>

definition detachTimer :: "string \<Rightarrow> nat \<Rightarrow> timer \<Rightarrow> timer" where
  "detachTimer lobbyId d t =
     (case t of
        CountdownTimer c \<Rightarrow> if c = lobbyId then DetachedCountdown c d else t
      | GameTickTimer c \<Rightarrow> if c = lobbyId then DetachedGameTick c d else t
      | EndGameTimeout n c \<Rightarrow> if c = lobbyId then DetachedEndGame n c d else t
      | DetachedCountdown c k \<Rightarrow> t
      | DetachedGameTick c k \<Rightarrow> t
      | DetachedEndGame n c k \<Rightarrow> t)"

definition detachLobby :: "string \<Rightarrow> server \<Rightarrow> server" where
  "detachLobby lobbyId s =
     (case map_of (lobbies s) lobbyId of
        None \<Rightarrow> s
      | Some l \<Rightarrow>
          s\<lparr>detached := detached s @ [l],
            timers := map (\<lambda>ht. (fst ht, detachTimer lobbyId (length (detached s)) (snd ht)))
                        (timers s)\<rparr>)"

subsection \<open>sendToClient, broadcastToLobby\<close>

definition isOpen :: "server \<Rightarrow> string \<Rightarrow> bool" where
  "isOpen s clientId = (case map_of (clients s) clientId of None \<Rightarrow> False | Some c \<Rightarrow> c_open c)"

definition sendToClient :: "server \<Rightarrow> string \<Rightarrow> message \<Rightarrow> server" where
  "sendToClient s clientId msg =
     (if isOpen s clientId then s\<lparr>outbox := outbox s @ [(clientId, msg)]\<rparr> else s)"

definition recipients :: "server \<Rightarrow> lobby \<Rightarrow> string list" where
  "recipients s l = filter (isOpen s) (map (\<lambda>kp. p_clientId (snd kp)) (l_players l))"

definition broadcastToLobby :: "server \<Rightarrow> string \<Rightarrow> message \<Rightarrow> server" where
  "broadcastToLobby s lobbyId msg =
     (case map_of (lobbies s) lobbyId of
        None \<Rightarrow> s
      | Some l \<Rightarrow> s\<lparr>outbox := outbox s @ map (\<lambda>c. (c, msg)) (recipients s l)\<rparr>)"

definition broadcastLobbyUpdate :: "server \<Rightarrow> string \<Rightarrow> server" where
  "broadcastLobbyUpdate s lobbyId =
     (case map_of (lobbies s) lobbyId of
        None \<Rightarrow> s
      | Some l \<Rightarrow>
          broadcastToLobby s lobbyId
            (LobbyUpdate (map (\<lambda>kp. (p_id (snd kp), p_name (snd kp), p_ready (snd kp),
                                     p_color (snd kp))) (l_players l))))"

subsection \<open>createLobby, handleJoinLobby\<close>

text \<open>
  \<open>lobbyId\<close> is the value of \<open>generateLobbyCode()\<close>. If a lobby is registered under that
  code already, \<open>lobbies.set\<close> replaces the object.
\<close>

definition createLobby :: "server \<Rightarrow> string \<Rightarrow> server" where
  "createLobby s lobbyId =
     (let s1 = detachLobby lobbyId s
      in s1\<lparr>lobbies := AList.update lobbyId DEFAULT_LOBBY (lobbies s1)\<rparr>)"

definition newPlayer :: "string \<Rightarrow> string \<Rightarrow> string \<Rightarrow> nat \<Rightarrow> player" where
  "newPlayer playerId clientId playerName n =
     \<lparr>p_id = playerId, p_clientId = clientId, p_name = playerName,
      p_color = playerColors ! (n mod length playerColors), p_ready = False,
      p_x = 0, p_y = 0, p_size = playerStartSize, p_input = (0, 0), p_lastUpdate = None\<rparr>"

text \<open>
  \<open>playerId\<close> is the value of \<open>uuidv4()\<close>. When the connection is not registered, the
  source throws at \<open>client.lobbyId = lobbyId\<close> after the player was stored; the
  dispatcher's \<open>catch\<close> then reports to the same unregistered connection, which sends
  nothing: that branch returns the state with the player stored.
\<close>

definition handleJoinLobby :: "server \<Rightarrow> string \<Rightarrow> string \<Rightarrow> string \<Rightarrow> string \<Rightarrow> server" where
  "handleJoinLobby s clientId lobbyId playerName playerId =
     (case map_of (lobbies s) lobbyId of
        None \<Rightarrow> sendToClient s clientId (Error ''Lobby not found'')
      | Some l \<Rightarrow>
          if l_gameState l \<noteq> Lobby then sendToClient s clientId (Error ''Game already in progress'')
          else if length (l_players l) \<ge> maxPlayers then sendToClient s clientId (Error ''Lobby is full'')
          else
            let player = newPlayer playerId clientId playerName (length (l_players l));
                s1 = updLobby lobbyId
                       (\<lambda>l. l\<lparr>l_players := AList.update playerId player (l_players l)\<rparr>) s
            in (case map_of (clients s1) clientId of
                  None \<Rightarrow> s1
                | Some c \<Rightarrow>
                    let s2 = s1\<lparr>clients := AList.update clientId
                                 (c\<lparr>c_lobbyId := Some lobbyId, c_playerId := Some playerId\<rparr>)
                                 (clients s1)\<rparr>;
                        s3 = sendToClient s2 clientId (Welcome clientId playerId lobbyId)
                    in broadcastLobbyUpdate s3 lobbyId))"

subsection \<open>endGame and its deferred teardown\<close>

definition firstId :: "(string \<times> player) list \<Rightarrow> string option" where
  "firstId ps = (case ps of [] \<Rightarrow> None | kp # _ \<Rightarrow> Some (p_id (snd kp)))"

text \<open>
  \<open>winnerId\<close> is \<open>None\<close> for \<open>null\<close> or \<open>undefined\<close>. A timer handle is an object, hence
  truthy whenever it is set. The function leaves \<open>gameState\<close> as it is.
\<close>

definition endGame :: "server \<Rightarrow> string \<Rightarrow> string option \<Rightarrow> server" where
  "endGame s lobbyId winnerId =
     (case map_of (lobbies s) lobbyId of
        None \<Rightarrow> s
      | Some l \<Rightarrow>
          if l_gameState l \<noteq> Playing then s
          else
            let s1 = (case l_gameTickInterval l of
                        None \<Rightarrow> s
                      | Some h \<Rightarrow> updLobby lobbyId (\<lambda>l. l\<lparr>l_gameTickInterval := None\<rparr>)
                                   (clearTimer (Some h) s));
                winner = (case winnerId of None \<Rightarrow> None | Some w \<Rightarrow> map_of (l_players l) w);
                s2 = broadcastToLobby s1 lobbyId
                       (GameOver winnerId (case winner of None \<Rightarrow> 0 | Some p \<Rightarrow> p_size p))
            in setTimer (EndGameTimeout 3000 lobbyId) s2)"

text \<open>
  The body of the \<open>setTimeout\<close> callback of \<open>endGame\<close>: \<open>teardown\<close> closes the socket of
  every player in the roster \<open>ps\<close> of the object the callback closed over, then deletes
  whatever the registry holds under the code. \<open>client.ws.close()\<close> leaves the socket not
  open; the \<open>close\<close> event arrives later as \<open>handleClientDisconnect\<close>. \<open>endGameTimeout\<close> is
  the callback while its object is the registered one, \<open>detachedEndGameTimeout\<close> the
  callback once the object has left the registry.
\<close>

definition closePlayer :: "player \<Rightarrow> server \<Rightarrow> server" where
  "closePlayer p s =
     (case map_of (clients s) (p_clientId p) of
        None \<Rightarrow> s
      | Some c \<Rightarrow>
          let s1 = sendToClient s (c_id c) PrepareReconnect
          in s1\<lparr>clients := AList.map_entry (p_clientId p) (\<lambda>c. c\<lparr>c_open := False\<rparr>) (clients s1)\<rparr>)"

definition teardown :: "server \<Rightarrow> string \<Rightarrow> (string \<times> player) list \<Rightarrow> server" where
  "teardown s lobbyId ps =
     (let s1 = fold (\<lambda>kp. closePlayer (snd kp)) ps s;
          s2 = detachLobby lobbyId s1
      in s2\<lparr>lobbies := AList.delete lobbyId (lobbies s2)\<rparr>)"

definition endGameTimeout :: "server \<Rightarrow> string \<Rightarrow> server" where
  "endGameTimeout s lobbyId =
     (case map_of (lobbies s) lobbyId of
        None \<Rightarrow> s
      | Some l \<Rightarrow> teardown s lobbyId (l_players l))"

definition detachedEndGameTimeout :: "server \<Rightarrow> string \<Rightarrow> nat \<Rightarrow> server" where
  "detachedEndGameTimeout s lobbyId d =
     (if d < length (detached s) then teardown s lobbyId (l_players (detached s ! d)) else s)"

subsection \<open>Countdown and game start\<close>

definition initializeGamePositions :: "server \<Rightarrow> string \<Rightarrow> server" where
  "initializeGamePositions s lobbyId =
     updLobby lobbyId (\<lambda>l.
       let n = length (l_players l);
           radius = min mapWidth mapHeight / 3;
           angleStep = (2 * pi) / real n
       in l\<lparr>l_players :=
            map (\<lambda>(index, kp).
                   (fst kp, (snd kp)\<lparr>p_x := cos (angleStep * real index) * radius,
                                      p_y := sin (angleStep * real index) * radius,
                                      p_size := playerStartSize,
                                      p_input := (0, 0)\<rparr>))
                (zip [0..<n] (l_players l))\<rparr>) s"

text \<open>\<open>rnd k\<close> is the value of the \<open>k\<close>-th call of \<open>Math.random()\<close> in the callback.\<close>

definition randomFood :: "(nat \<Rightarrow> real) \<Rightarrow> nat \<Rightarrow> real \<times> real" where
  "randomFood rnd k = ((rnd k * 2 - 1) * mapWidth, (rnd (Suc k) * 2 - 1) * mapHeight)"

definition generateFood :: "server \<Rightarrow> string \<Rightarrow> (nat \<Rightarrow> real) \<Rightarrow> server" where
  "generateFood s lobbyId rnd =
     updLobby lobbyId
       (\<lambda>l. l\<lparr>l_foodItems := map (\<lambda>i. randomFood rnd (2 * i)) [0..<foodCount]\<rparr>) s"

definition startGameTick :: "server \<Rightarrow> string \<Rightarrow> server" where
  "startGameTick s lobbyId =
     (case map_of (lobbies s) lobbyId of
        None \<Rightarrow> s
      | Some l \<Rightarrow>
          updLobby lobbyId (\<lambda>l. l\<lparr>l_gameTickInterval := Some (nextTimer s)\<rparr>)
            (setTimer (GameTickTimer lobbyId) s))"

definition playerSnapshot :: "(string \<times> player) list \<Rightarrow> (string \<times> real \<times> real \<times> real) list" where
  "playerSnapshot ps = map (\<lambda>kp. (p_id (snd kp), p_x (snd kp), p_y (snd kp), p_size (snd kp))) ps"

definition startGame :: "server \<Rightarrow> string \<Rightarrow> (nat \<Rightarrow> real) \<Rightarrow> server" where
  "startGame s lobbyId rnd =
     (case map_of (lobbies s) lobbyId of
        None \<Rightarrow> s
      | Some l \<Rightarrow>
          let s1 = updLobby lobbyId (\<lambda>l. l\<lparr>l_gameState := Playing\<rparr>) s;
              s2 = initializeGamePositions s1 lobbyId;
              s3 = generateFood s2 lobbyId rnd;
              s4 = (case map_of (lobbies s3) lobbyId of
                      None \<Rightarrow> s3
                    | Some l3 \<Rightarrow> broadcastToLobby s3 lobbyId
                                  (GameStart (playerSnapshot (l_players l3)) (l_foodItems l3)))
          in startGameTick s4 lobbyId)"

definition startCountdown :: "server \<Rightarrow> string \<Rightarrow> server" where
  "startCountdown s lobbyId =
     (case map_of (lobbies s) lobbyId of
        None \<Rightarrow> s
      | Some l \<Rightarrow>
          let s1 = updLobby lobbyId
                     (\<lambda>l. l\<lparr>l_gameState := Countdown, l_countdown := countdownTime\<rparr>) s;
              s2 = broadcastToLobby s1 lobbyId (CountdownMsg countdownTime);
              s3 = setTimer (CountdownTimer lobbyId) s2
          in updLobby lobbyId (\<lambda>l. l\<lparr>l_countdownInterval := Some (nextTimer s2)\<rparr>) s3)"

text \<open>
  One firing of the interval callback set up by \<open>startCountdown\<close>. \<open>clearInterval\<close>
  removes the timer; the field \<open>countdownInterval\<close> keeps the stale handle.
  \<open>countdownTick\<close> is the callback while the object it closed over is the registered one
  (a timer that names the code always finds the lobby registered). \<open>detachedCountdownTick\<close>
  is the callback once that object has left the registry: it counts down on the detached
  object and clears the handle stored in it, while \<open>broadcastToLobby\<close> and \<open>startGame\<close>
  look the code up in the registry.
\<close>

definition countdownTick :: "server \<Rightarrow> string \<Rightarrow> (nat \<Rightarrow> real) \<Rightarrow> server" where
  "countdownTick s lobbyId rnd =
     (case map_of (lobbies s) lobbyId of
        None \<Rightarrow> s
      | Some l \<Rightarrow>
          let s1 = updLobby lobbyId (\<lambda>l. l\<lparr>l_countdown := l_countdown l - 1\<rparr>) s
          in if l_countdown l - 1 > 0
             then broadcastToLobby s1 lobbyId (CountdownMsg (l_countdown l - 1))
             else startGame (clearTimer (l_countdownInterval l) s1) lobbyId rnd)"

definition detachedCountdownTick :: "server \<Rightarrow> string \<Rightarrow> nat \<Rightarrow> (nat \<Rightarrow> real) \<Rightarrow> server" where
  "detachedCountdownTick s lobbyId d rnd =
     (if d < length (detached s) then
        let l = detached s ! d;
            s1 = s\<lparr>detached := (detached s)[d := l\<lparr>l_countdown := l_countdown l - 1\<rparr>]\<rparr>
        in if l_countdown l - 1 > 0
           then broadcastToLobby s1 lobbyId (CountdownMsg (l_countdown l - 1))
           else startGame (clearTimer (l_countdownInterval l) s1) lobbyId rnd
      else s)"

definition checkGameStart :: "server \<Rightarrow> string \<Rightarrow> server" where
  "checkGameStart s lobbyId =
     (case map_of (lobbies s) lobbyId of
        None \<Rightarrow> s
      | Some l \<Rightarrow>
          if l_gameState l \<noteq> Lobby then s
          else if length (l_players l) \<ge> minPlayersToStart
                  \<and> list_all (\<lambda>kp. p_ready (snd kp)) (l_players l)
               then startCountdown s lobbyId
               else s)"

subsection \<open>The other message handlers\<close>

definition handleToggleReady :: "server \<Rightarrow> string \<Rightarrow> string \<Rightarrow> server" where
  "handleToggleReady s clientId lobbyId =
     (case map_of (clients s) clientId of
        None \<Rightarrow> s
      | Some c \<Rightarrow>
         (case c_playerId c of
            None \<Rightarrow> s
          | Some playerId \<Rightarrow>
             (case map_of (lobbies s) lobbyId of
                None \<Rightarrow> s
              | Some l \<Rightarrow>
                 (case map_of (l_players l) playerId of
                    None \<Rightarrow> s
                  | Some p \<Rightarrow>
                      let s1 = updPlayer lobbyId playerId (\<lambda>p. p\<lparr>p_ready := \<not> p_ready p\<rparr>) s;
                          s2 = broadcastLobbyUpdate s1 lobbyId
                      in checkGameStart s2 lobbyId))))"

text \<open>
  \<open>handlePlayerInput\<close> computes on the two components of the input as the client sent
  them, with the multiplication, addition, \<open>Math.sqrt\<close> and division of IEEE doubles.
  These operations round, overflow and underflow, so their results are not those of the
  reals: the four operations are a parameter \<open>fp\<close> of the handler. \<open>exactArith\<close> is the
  arithmetic of the reals, with which they agree where no rounding occurs. Components that
  are not finite numbers and results that are \<open>NaN\<close> are outside the model.
\<close>

record arith =
  f_mul :: "real \<Rightarrow> real \<Rightarrow> real"
  f_add :: "real \<Rightarrow> real \<Rightarrow> real"
  f_sqrt :: "real \<Rightarrow> real"
  f_div :: "real \<Rightarrow> real \<Rightarrow> real"

definition exactArith :: arith where
  "exactArith = \<lparr>f_mul = (*), f_add = (+), f_sqrt = sqrt, f_div = (/)\<rparr>"

definition computedLength :: "arith \<Rightarrow> real \<times> real \<Rightarrow> real" where
  "computedLength fp inp =
     f_sqrt fp (f_add fp (f_mul fp (fst inp) (fst inp)) (f_mul fp (snd inp) (snd inp)))"

definition normalizeInput :: "arith \<Rightarrow> real \<times> real \<Rightarrow> real \<times> real" where
  "normalizeInput fp inp =
     (let len = computedLength fp inp
      in if len > 0 then (f_div fp (fst inp) len, f_div fp (snd inp) len) else (0, 0))"

definition handlePlayerInput ::
  "server \<Rightarrow> string \<Rightarrow> string \<Rightarrow> real \<times> real \<Rightarrow> arith \<Rightarrow> server" where
  "handlePlayerInput s clientId lobbyId inp fp =
     (case map_of (lobbies s) lobbyId of
        None \<Rightarrow> s
      | Some l \<Rightarrow>
          if l_gameState l \<noteq> Playing then s
          else
           (case map_of (clients s) clientId of
              None \<Rightarrow> s
            | Some c \<Rightarrow>
               (case c_playerId c of
                  None \<Rightarrow> s
                | Some playerId \<Rightarrow>
                   (case map_of (l_players l) playerId of
                      None \<Rightarrow> s
                    | Some p \<Rightarrow>
                        updPlayer lobbyId playerId (\<lambda>p. p\<lparr>p_input := normalizeInput fp inp\<rparr>) s))))"

definition resetPlayer :: "player \<Rightarrow> player" where
  "resetPlayer p = p\<lparr>p_x := 0, p_y := 0, p_size := playerStartSize, p_ready := False,
                     p_input := (0, 0)\<rparr>"

definition handleRequestLobby :: "server \<Rightarrow> string \<Rightarrow> server" where
  "handleRequestLobby s clientId =
     (case map_of (clients s) clientId of
        None \<Rightarrow> s
      | Some c \<Rightarrow>
         (case c_lobbyId c of
            None \<Rightarrow> s
          | Some lobbyId \<Rightarrow>
             (case map_of (lobbies s) lobbyId of
                None \<Rightarrow> s
              | Some l \<Rightarrow>
                  let s1 = (case l_countdownInterval l of
                              None \<Rightarrow> s
                            | Some h \<Rightarrow> updLobby lobbyId (\<lambda>l. l\<lparr>l_countdownInterval := None\<rparr>)
                                         (clearTimer (Some h) s));
                      s2 = (case l_gameTickInterval l of
                              None \<Rightarrow> s1
                            | Some h \<Rightarrow> updLobby lobbyId (\<lambda>l. l\<lparr>l_gameTickInterval := None\<rparr>)
                                         (clearTimer (Some h) s1));
                      s3 = updLobby lobbyId
                             (\<lambda>l. l\<lparr>l_gameState := Lobby, l_foodItems := [],
                                    l_countdown := countdownTime,
                                    l_players := map (\<lambda>kp. (fst kp, resetPlayer (snd kp)))
                                                   (l_players l)\<rparr>) s2;
                      s4 = broadcastToLobby s3 lobbyId ForceLobby
                  in broadcastLobbyUpdate s4 lobbyId)))"

definition handleClientDisconnect :: "server \<Rightarrow> string \<Rightarrow> server" where
  "handleClientDisconnect s clientId =
     (case map_of (clients s) clientId of
        None \<Rightarrow> s
      | Some c \<Rightarrow>
          let s1 =
            (case c_lobbyId c of
               None \<Rightarrow> s
             | Some lobbyId \<Rightarrow>
                (case map_of (lobbies s) lobbyId of
                   None \<Rightarrow> s
                 | Some l \<Rightarrow>
                    (case c_playerId c of
                       None \<Rightarrow> s
                     | Some playerId \<Rightarrow>
                         let sa = updLobby lobbyId
                                    (\<lambda>l. l\<lparr>l_players := AList.delete playerId (l_players l)\<rparr>) s;
                             sb = broadcastToLobby sa lobbyId (PlayerEaten playerId None);
                             remaining = AList.delete playerId (l_players l)
                         in if l_gameState l = Playing \<and> length remaining \<le> 1
                            then endGame sb lobbyId (firstId remaining)
                            else sb)))
          in s1\<lparr>clients := AList.delete clientId (clients s1)\<rparr>)"

subsection \<open>Movement integration\<close>

definition bounceX :: "player \<Rightarrow> player" where
  "bounceX p =
     (if p_x p < - mapWidth + 2
      then p\<lparr>p_x := max (- mapWidth) (p_x p), p_input := (fst (p_input p) * - (8 / 10), snd (p_input p))\<rparr>
      else if p_x p > mapWidth - 2
      then p\<lparr>p_x := min mapWidth (p_x p), p_input := (fst (p_input p) * - (8 / 10), snd (p_input p))\<rparr>
      else p)"

definition bounceY :: "player \<Rightarrow> player" where
  "bounceY p =
     (if p_y p < - mapHeight + 2
      then p\<lparr>p_y := max (- mapHeight) (p_y p), p_input := (fst (p_input p), snd (p_input p) * - (8 / 10))\<rparr>
      else if p_y p > mapHeight - 2
      then p\<lparr>p_y := min mapHeight (p_y p), p_input := (fst (p_input p), snd (p_input p) * - (8 / 10))\<rparr>
      else p)"

text \<open>
  The body of the \<open>forEach\<close> of \<open>updateGameState\<close> for one player; \<open>t\<close> is the value of
  \<open>Date.now()\<close> read for this player. \<open>Math.pow(1 / size, 0.5)\<close> is the square root.
\<close>

definition movePlayer :: "real \<Rightarrow> int \<Rightarrow> player \<Rightarrow> player" where
  "movePlayer deltaTime t p =
     (let p1 =
        (if fst (p_input p) \<noteq> 0 \<or> snd (p_input p) \<noteq> 0
         then
           let moveSpeed = forceMagnitude * sqrt (1 / p_size p) * deltaTime;
               inputMagnitude = sqrt (fst (p_input p) * fst (p_input p)
                                      + snd (p_input p) * snd (p_input p));
               p2 = (if inputMagnitude > 0
                     then p\<lparr>p_x := p_x p + fst (p_input p) / inputMagnitude * moveSpeed,
                            p_y := p_y p + snd (p_input p) / inputMagnitude * moveSpeed\<rparr>
                     else p)
           in bounceY (bounceX p2)
         else p)
      in p1\<lparr>p_lastUpdate := Some t\<rparr>)"

subsection \<open>Food collisions\<close>

text \<open>
  The state of the pass is the server and the number of \<open>Math.random()\<close> calls made so
  far. \<open>foodStep\<close> is the body of the inner loop for the player stored under \<open>key\<close> and the
  food index \<open>i\<close>. An index at or beyond the length of the array does not occur: the loop
  runs downwards from the last index and a removal is followed only by appends (lemma
  \<open>checkFoodPlayer_in_range\<close>).
\<close>

definition foodCountOf :: "server \<Rightarrow> string \<Rightarrow> nat" where
  "foodCountOf s lobbyId = (case map_of (lobbies s) lobbyId of None \<Rightarrow> 0 | Some l \<Rightarrow> length (l_foodItems l))"

definition respawnOne :: "string \<Rightarrow> (nat \<Rightarrow> real) \<Rightarrow> real \<times> real \<Rightarrow> string \<Rightarrow> server \<times> nat \<Rightarrow> server \<times> nat" where
  "respawnOne lobbyId rnd food by st =
     (let newFood = randomFood rnd (snd st);
          s1 = updLobby lobbyId (\<lambda>l. l\<lparr>l_foodItems := l_foodItems l @ [newFood]\<rparr>) (fst st);
          s2 = broadcastToLobby s1 lobbyId (FoodEaten (fst food) (snd food) by (Some newFood))
      in (s2, snd st + 2))"

definition foodStep :: "string \<Rightarrow> (nat \<Rightarrow> real) \<Rightarrow> string \<Rightarrow> nat \<Rightarrow> server \<times> nat \<Rightarrow> server \<times> nat" where
  "foodStep lobbyId rnd key i st =
     (case map_of (lobbies (fst st)) lobbyId of
        None \<Rightarrow> st
      | Some l \<Rightarrow>
         (case map_of (l_players l) key of
            None \<Rightarrow> st
          | Some p \<Rightarrow>
              if i < length (l_foodItems l) then
                let food = l_foodItems l ! i;
                    dx = p_x p - fst food;
                    dy = p_y p - snd food;
                    distance = sqrt (dx * dx + dy * dy)
                in if distance < p_size p + foodSize then
                     let s1 = updPlayer lobbyId key (\<lambda>p. p\<lparr>p_size := p_size p + growthRate\<rparr>) (fst st);
                         s2 = broadcastToLobby s1 lobbyId (FoodEaten (fst food) (snd food) (p_id p) None);
                         s3 = updLobby lobbyId
                                (\<lambda>l. l\<lparr>l_foodItems := take i (l_foodItems l) @ drop (Suc i) (l_foodItems l)\<rparr>) s2
                     in if real (foodCountOf s3 lobbyId) < real foodCount * respawnThreshold
                        then fold (\<lambda>j. respawnOne lobbyId rnd food (p_id p)) [0..<respawnAmount] (s3, snd st)
                        else (s3, snd st)
                   else st
              else st))"

definition checkFoodPlayer :: "string \<Rightarrow> (nat \<Rightarrow> real) \<Rightarrow> string \<Rightarrow> server \<times> nat \<Rightarrow> server \<times> nat" where
  "checkFoodPlayer lobbyId rnd key st =
     fold (foodStep lobbyId rnd key) (rev [0..<foodCountOf (fst st) lobbyId]) st"

definition checkFoodCollisions :: "server \<Rightarrow> string \<Rightarrow> (nat \<Rightarrow> real) \<Rightarrow> server" where
  "checkFoodCollisions s lobbyId rnd =
     (case map_of (lobbies s) lobbyId of
        None \<Rightarrow> s
      | Some l \<Rightarrow> fst (fold (checkFoodPlayer lobbyId rnd) (map fst (l_players l)) (s, 0)))"

subsection \<open>Player collisions and absorption\<close>

text \<open>
  \<open>absorbPlayer\<close> searches \<open>clients\<close> in insertion order for the first connection whose
  \<open>playerId\<close> is the absorbed player; only when one is found is the player removed.
\<close>

definition absorbPlayer :: "server \<Rightarrow> string \<Rightarrow> string \<Rightarrow> string \<Rightarrow> server" where
  "absorbPlayer s lobbyId absorberId absorbeId =
     (case map_of (lobbies s) lobbyId of
        None \<Rightarrow> s
      | Some l \<Rightarrow>
          let s1 =
            (case find (\<lambda>kc. c_playerId (snd kc) = Some absorbeId) (clients s) of
               None \<Rightarrow> s
             | Some kc \<Rightarrow>
                 let sa = updLobby lobbyId
                            (\<lambda>l. l\<lparr>l_players := AList.delete absorbeId (l_players l)\<rparr>) s;
                     sb = sa\<lparr>clients := AList.map_entry (fst kc) (\<lambda>c. c\<lparr>c_playerId := None\<rparr>) (clients sa)\<rparr>;
                     sc = broadcastToLobby sb lobbyId (PlayerEaten absorbeId (Some absorberId))
                 in sendToClient sc (c_id (snd kc)) YouWereEliminated)
          in (case map_of (lobbies s1) lobbyId of
                None \<Rightarrow> s1
              | Some l1 \<Rightarrow>
                  if length (l_players l1) \<le> 1 \<and> l_gameState l1 = Playing
                  then endGame s1 lobbyId (firstId (l_players l1))
                  else s1))"

text \<open>\<open>Math.atan2(y, x)\<close> on reals.\<close>

definition atan2 :: "real \<Rightarrow> real \<Rightarrow> real" where
  "atan2 y x =
     (if x > 0 then arctan (y / x)
      else if x < 0 \<and> y \<ge> 0 then arctan (y / x) + pi
      else if x < 0 then arctan (y / x) - pi
      else if y > 0 then pi / 2
      else if y < 0 then - (pi / 2)
      else 0)"

text \<open>
  \<open>checkPlayerCollisions\<close> works on \<open>playerList\<close>, an array of the player objects that
  were in the roster when the pass began. A player removed during the pass stays in the array
  and is still read and written. The state of the pass is the array of the current values of
  these objects together with the server; \<open>writeObj\<close> is an assignment to fields of the
  object at an index, which is also seen through the roster as long as the roster holds
  that object (roster keys are the ids of the objects stored under them).
\<close>

definition writeObj :: "string \<Rightarrow> nat \<Rightarrow> player \<Rightarrow> player list \<times> server \<Rightarrow> player list \<times> server" where
  "writeObj lobbyId i p st =
     ((fst st)[i := p], updPlayer lobbyId (p_id p) (\<lambda>_. p) (snd st))"

definition absorbInto :: "player \<Rightarrow> player \<Rightarrow> player" where
  "absorbInto a b =
     (let massRatio = p_size b / p_size a
      in a\<lparr>p_size := p_size a + p_size b * (5 / 10),
           p_input := (fst (p_input a) + fst (p_input b) * massRatio * (5 / 10),
                       snd (p_input a) + snd (p_input b) * massRatio * (5 / 10))\<rparr>)"

definition elasticA :: "player \<Rightarrow> player \<Rightarrow> player" where
  "elasticA a b =
     (let dx = p_x a - p_x b; dy = p_y a - p_y b;
          distance = sqrt (dx * dx + dy * dy);
          touchDistance = p_size a + p_size b;
          angle = atan2 dy dx;
          overlap = touchDistance - distance;
          totalMass = p_size a + p_size b;
          massRatioA = p_size a / totalMass;
          massRatioB = p_size b / totalMass;
          separation = overlap * (5 / 10);
          separationX = cos angle * separation;
          separationY = sin angle * separation
      in a\<lparr>p_x := p_x a + separationX * massRatioB,
           p_y := p_y a + separationY * massRatioB,
           p_input := ((fst (p_input a) * (massRatioA - massRatioB)
                          + 2 * massRatioB * fst (p_input b)) * (8 / 10),
                       (snd (p_input a) * (massRatioA - massRatioB)
                          + 2 * massRatioB * snd (p_input b)) * (8 / 10))\<rparr>)"

definition elasticB :: "player \<Rightarrow> player \<Rightarrow> player" where
  "elasticB a b =
     (let dx = p_x a - p_x b; dy = p_y a - p_y b;
          distance = sqrt (dx * dx + dy * dy);
          touchDistance = p_size a + p_size b;
          angle = atan2 dy dx;
          overlap = touchDistance - distance;
          totalMass = p_size a + p_size b;
          massRatioA = p_size a / totalMass;
          massRatioB = p_size b / totalMass;
          separation = overlap * (5 / 10);
          separationX = cos angle * separation;
          separationY = sin angle * separation
      in b\<lparr>p_x := p_x b - separationX * massRatioA,
           p_y := p_y b - separationY * massRatioA,
           p_input := ((fst (p_input b) * (massRatioB - massRatioA)
                          + 2 * massRatioA * fst (p_input a)) * (8 / 10),
                       (snd (p_input b) * (massRatioB - massRatioA)
                          + 2 * massRatioA * snd (p_input a)) * (8 / 10))\<rparr>)"

text \<open>
  The body of the inner loop for the indices \<open>i < j\<close>. \<open>elasticA a b\<close> and \<open>elasticB a b\<close>
  are the new values of the two objects in the bounce branch, both computed from the
  values before the bounce (the source saves \<open>tempX\<close>, \<open>tempY\<close> for this).
\<close>

definition resolvePair :: "string \<Rightarrow> nat \<Rightarrow> nat \<Rightarrow> player list \<times> server \<Rightarrow> player list \<times> server" where
  "resolvePair lobbyId i j st =
     (let a = fst st ! i; b = fst st ! j in
      if p_id b = [] then st
      else
        let dx = p_x a - p_x b; dy = p_y a - p_y b;
            distance = sqrt (dx * dx + dy * dy);
            touchDistance = p_size a + p_size b
        in if distance < touchDistance then
             if p_size a > p_size b * absorptionThreshold then
               let st1 = writeObj lobbyId i (absorbInto a b) st
               in (fst st1, absorbPlayer (snd st1) lobbyId (p_id a) (p_id b))
             else if p_size b > p_size a * absorptionThreshold then
               let st1 = writeObj lobbyId j (absorbInto b a) st
               in (fst st1, absorbPlayer (snd st1) lobbyId (p_id b) (p_id a))
             else writeObj lobbyId j (elasticB a b) (writeObj lobbyId i (elasticA a b) st)
           else st)"

definition collideFrom :: "string \<Rightarrow> nat \<Rightarrow> player list \<times> server \<Rightarrow> player list \<times> server" where
  "collideFrom lobbyId i st =
     (if p_id (fst st ! i) = [] then st
      else fold (resolvePair lobbyId i) [Suc i..<length (fst st)] st)"

definition checkPlayerCollisions :: "server \<Rightarrow> string \<Rightarrow> server" where
  "checkPlayerCollisions s lobbyId =
     (case map_of (lobbies s) lobbyId of
        None \<Rightarrow> s
      | Some l \<Rightarrow>
          snd (fold (collideFrom lobbyId) [0..<length (l_players l)] (map snd (l_players l), s)))"

subsection \<open>The simulation tick\<close>

text \<open>
  The inactivity loop of \<open>updateGameState\<close> for one roster entry; \<open>now - undefined\<close> is
  \<open>NaN\<close>, which is not greater than 5000.
\<close>

definition reapStep :: "string \<Rightarrow> int \<Rightarrow> string \<times> player \<Rightarrow> server \<Rightarrow> server" where
  "reapStep lobbyId now kp s =
     (case p_lastUpdate (snd kp) of
        None \<Rightarrow> s
      | Some t \<Rightarrow>
          if now - t > 5000
          then broadcastToLobby
                 (updLobby lobbyId (\<lambda>l. l\<lparr>l_players := AList.delete (fst kp) (l_players l)\<rparr>) s)
                 lobbyId (PlayerDisconnected (fst kp))
          else s)"

text \<open>
  \<open>clk k\<close> is the value of the \<open>k\<close>-th call of \<open>Date.now()\<close> in the tick: one per player
  in the movement loop, then one before the inactivity loop. No operation of the model
  throws, so the \<open>catch\<close> blocks of the source have no counterpart.
\<close>

definition updateGameState :: "server \<Rightarrow> string \<Rightarrow> real \<Rightarrow> (nat \<Rightarrow> int) \<Rightarrow> (nat \<Rightarrow> real) \<Rightarrow> server" where
  "updateGameState s lobbyId deltaTime clk rnd =
     (case map_of (lobbies s) lobbyId of
        None \<Rightarrow> s
      | Some l \<Rightarrow>
          if l_gameState l \<noteq> Playing then s
          else if length (l_players l) < minPlayersToStart then endGame s lobbyId None
          else
            let n = length (l_players l);
                s1 = updLobby lobbyId
                       (\<lambda>l. l\<lparr>l_players :=
                               map (\<lambda>(k, kp). (fst kp, movePlayer deltaTime (clk k) (snd kp)))
                                   (zip [0..<n] (l_players l))\<rparr>) s;
                s2 = checkFoodCollisions s1 lobbyId rnd;
                s3 = checkPlayerCollisions s2 lobbyId;
                now = clk n;
                s4 = (case map_of (lobbies s3) lobbyId of
                        None \<Rightarrow> s3
                      | Some l3 \<Rightarrow> fold (reapStep lobbyId now) (l_players l3) s3)
            in (case map_of (lobbies s4) lobbyId of
                  None \<Rightarrow> s4
                | Some l4 \<Rightarrow>
                    if l_gameState l4 = Playing \<and> length (l_players l4) \<le> 1
                    then endGame s4 lobbyId (firstId (l_players l4))
                    else s4))"

definition broadcastGameState :: "server \<Rightarrow> string \<Rightarrow> server" where
  "broadcastGameState s lobbyId =
     (case map_of (lobbies s) lobbyId of
        None \<Rightarrow> s
      | Some l \<Rightarrow>
          if l_gameState l \<noteq> Playing then s
          else broadcastToLobby s lobbyId (GameUpdate (playerSnapshot (l_players l))))"

text \<open>
  One firing of the interval callback set up by \<open>startGameTick\<close>: \<open>gameTick\<close> while the
  object it closed over is the registered one, \<open>detachedGameTick\<close> once that object has left
  the registry. The callback reads \<open>gameState\<close> and \<open>gameTickInterval\<close> from its object;
  \<open>updateGameState\<close> and \<open>broadcastGameState\<close> look the code up in the registry.
\<close>

definition gameTick :: "server \<Rightarrow> string \<Rightarrow> real \<Rightarrow> (nat \<Rightarrow> int) \<Rightarrow> (nat \<Rightarrow> real) \<Rightarrow> server" where
  "gameTick s lobbyId deltaTime clk rnd =
     (case map_of (lobbies s) lobbyId of
        None \<Rightarrow> s
      | Some l \<Rightarrow>
          if l_gameState l \<noteq> Playing then clearTimer (l_gameTickInterval l) s
          else broadcastGameState (updateGameState s lobbyId deltaTime clk rnd) lobbyId)"

definition detachedGameTick ::
  "server \<Rightarrow> string \<Rightarrow> nat \<Rightarrow> real \<Rightarrow> (nat \<Rightarrow> int) \<Rightarrow> (nat \<Rightarrow> real) \<Rightarrow> server" where
  "detachedGameTick s lobbyId d deltaTime clk rnd =
     (if d < length (detached s) then
        if l_gameState (detached s ! d) \<noteq> Playing
        then clearTimer (l_gameTickInterval (detached s ! d)) s
        else broadcastGameState (updateGameState s lobbyId deltaTime clk rnd) lobbyId
      else s)"

subsection \<open>Connections, the dispatcher and the event loop\<close>

definition connection :: "server \<Rightarrow> string \<Rightarrow> server" where
  "connection s clientId =
     s\<lparr>clients := AList.update clientId
          \<lparr>c_id = clientId, c_open = True, c_playerId = None, c_lobbyId = None\<rparr> (clients s)\<rparr>"

text \<open>
  A decoded inbound message. An absent or empty \<open>lobbyId\<close> or \<open>name\<close> is the empty string
  (both are falsy); an absent \<open>input\<close> is \<open>None\<close>.
\<close>

datatype client_message =
    CreateLobby
  | JoinLobby string string
  | ToggleReady
  | PlayerInput string "(real \<times> real) option"
  | RequestLobby
  | UnknownType

text \<open>
  \<open>code\<close> is the value \<open>generateLobbyCode()\<close> returns and \<open>uuid\<close> the value \<open>uuidv4()\<close>
  returns, should the handler call them; \<open>fp\<close> is the floating-point arithmetic.
\<close>

definition handleClientMessage ::
  "server \<Rightarrow> string \<Rightarrow> client_message \<Rightarrow> string \<Rightarrow> string \<Rightarrow> arith \<Rightarrow> server" where
  "handleClientMessage s clientId msg code uuid fp =
     (case map_of (clients s) clientId of
        None \<Rightarrow> s
      | Some c \<Rightarrow>
         (case msg of
            CreateLobby \<Rightarrow> sendToClient (createLobby s code) clientId (LobbyCreated code)
          | JoinLobby lobbyId name \<Rightarrow>
              if lobbyId = [] then sendToClient s clientId (Error ''Lobby ID is required'')
              else handleJoinLobby s clientId lobbyId (if name = [] then ''Anonymous'' else name) uuid
          | ToggleReady \<Rightarrow>
             (case c_lobbyId c of
                None \<Rightarrow> sendToClient s clientId (Error ''Not in a lobby'')
              | Some lobbyId \<Rightarrow> handleToggleReady s clientId lobbyId)
          | PlayerInput lobbyId inp \<Rightarrow>
             (case inp of
                None \<Rightarrow> s
              | Some v \<Rightarrow> if lobbyId = [] then s else handlePlayerInput s clientId lobbyId v fp)
          | RequestLobby \<Rightarrow> handleRequestLobby s clientId
          | UnknownType \<Rightarrow> sendToClient s clientId (Error ''Unknown message type'')))"

definition fireTimer :: "server \<Rightarrow> nat \<Rightarrow> real \<Rightarrow> (nat \<Rightarrow> int) \<Rightarrow> (nat \<Rightarrow> real) \<Rightarrow> server" where
  "fireTimer s h deltaTime clk rnd =
     (case map_of (timers s) h of
        None \<Rightarrow> s
      | Some (CountdownTimer lobbyId) \<Rightarrow> countdownTick s lobbyId rnd
      | Some (GameTickTimer lobbyId) \<Rightarrow> gameTick s lobbyId deltaTime clk rnd
      | Some (EndGameTimeout ms lobbyId) \<Rightarrow> endGameTimeout (clearTimer (Some h) s) lobbyId
      | Some (DetachedCountdown lobbyId d) \<Rightarrow> detachedCountdownTick s lobbyId d rnd
      | Some (DetachedGameTick lobbyId d) \<Rightarrow> detachedGameTick s lobbyId d deltaTime clk rnd
      | Some (DetachedEndGame ms lobbyId d) \<Rightarrow>
          detachedEndGameTimeout (clearTimer (Some h) s) lobbyId d)"

text \<open>
  What the event loop can run next: a new connection, an inbound message, the \<open>close\<close>
  event of a connection, a socket leaving the open state, and a timer that fires.
\<close>

datatype event =
    Connect string
  | Message string client_message string string arith
  | Close string
  | NotOpen string
  | Fire nat real "nat \<Rightarrow> int" "nat \<Rightarrow> real"

fun step :: "server \<Rightarrow> event \<Rightarrow> server" where
  "step s (Connect clientId) = connection s clientId"
| "step s (Message clientId msg code uuid fp) = handleClientMessage s clientId msg code uuid fp"
| "step s (Close clientId) = handleClientDisconnect s clientId"
| "step s (NotOpen clientId) =
     s\<lparr>clients := AList.map_entry clientId (\<lambda>c. c\<lparr>c_open := False\<rparr>) (clients s)\<rparr>"
| "step s (Fire h deltaTime clk rnd) = fireTimer s h deltaTime clk rnd"

definition run :: "event list \<Rightarrow> server" where
  "run es = foldl step initial es"

subsection \<open>Observations used in the properties\<close>

definition rosterOf :: "server \<Rightarrow> string \<Rightarrow> (string \<times> player) list" where
  "rosterOf s lobbyId = (case map_of (lobbies s) lobbyId of None \<Rightarrow> [] | Some l \<Rightarrow> l_players l)"




definition fullLobby :: lobby where
  "fullLobby = DEFAULT_LOBBY\<lparr>l_players :=
     map (\<lambda>k. (k, newPlayer k ''c0'' ''n'' 0)) [''a'', ''b'', ''c'', ''d'', ''e'']\<rparr>"

text \<open>The Euclidean length of an input vector, and the shape C7 asks of it.\<close>

definition vecLength :: "real \<times> real \<Rightarrow> real" where
  "vecLength v = sqrt (fst v * fst v + snd v * snd v)"

definition unitOrZero :: "real \<times> real \<Rightarrow> bool" where
  "unitOrZero v = (v = (0, 0) \<or> vecLength v = 1)"

definition inputsOf :: "server \<Rightarrow> string \<Rightarrow> (real \<times> real) list" where
  "inputsOf s lobbyId = map (p_input \<circ> snd) (rosterOf s lobbyId)"

text \<open>
  The IEEE double arithmetic on the input \<open>(1, 1)\<close>: the products and their sum are exact,
  \<open>Math.sqrt(2)\<close> is the double \<open>1.4142135623730951\<close>, which is \<open>6369051672525773 / 2^52\<close>,
  and \<open>1 / 1.4142135623730951\<close> is the double \<open>0.7071067811865475\<close>, which is
  \<open>1592262918131443 / 2^51\<close>. Elsewhere \<open>roundedArith\<close> is as \<open>exactArith\<close>.
\<close>

definition roundedArith :: arith where
  "roundedArith = exactArith
     \<lparr>f_sqrt := (\<lambda>x. if x = 2 then 6369051672525773 / 4503599627370496 else sqrt x),
      f_div := (\<lambda>x y. if x = 1 \<and> y = 6369051672525773 / 4503599627370496
                       then 1592262918131443 / 2251799813685248 else x / y)\<rparr>"

text \<open>
  A lobby in play with two players \<open>pA\<close> and \<open>pB\<close>, owned by the open connections \<open>c1\<close> and
  \<open>c2\<close>; its countdown timer (handle 0) has been cleared, its tick timer (handle 1) is
  pending.
\<close>

definition arenaClient :: "string \<Rightarrow> string \<Rightarrow> client" where
  "arenaClient clientId playerId =
     \<lparr>c_id = clientId, c_open = True, c_playerId = Some playerId, c_lobbyId = Some ''L''\<rparr>"

definition arenaLobby :: "player \<Rightarrow> player \<Rightarrow> (real \<times> real) list \<Rightarrow> lobby" where
  "arenaLobby a b food =
     \<lparr>l_players = [(''pA'', a), (''pB'', b)], l_gameState = Playing,
      l_foodItems = food, l_countdown = 0,
      l_countdownInterval = Some 0, l_gameTickInterval = Some 1\<rparr>"

definition arena :: "player \<Rightarrow> player \<Rightarrow> (real \<times> real) list \<Rightarrow> server" where
  "arena a b food =
     \<lparr>clients = [(''c1'', arenaClient ''c1'' ''pA''), (''c2'', arenaClient ''c2'' ''pB'')],
      lobbies = [(''L'', arenaLobby a b food)],
      outbox = [],
      timers = [(1, GameTickTimer ''L'')],
      nextTimer = 2,
      detached = []\<rparr>"

definition playerA :: player where
  "playerA = newPlayer ''pA'' ''c1'' ''ann'' 0"

definition playerB :: player where
  "playerB = newPlayer ''pB'' ''c2'' ''bob'' 1"

definition movingA :: player where
  "movingA = playerA\<lparr>p_input := (1, 0)\<rparr>"

text \<open>A clock that reads \<open>t\<close> at every call, and a random source that always returns \<open>r\<close>.\<close>

definition clockAt :: "int \<Rightarrow> nat \<Rightarrow> int" where
  "clockAt t k = t"

definition randomAt :: "real \<Rightarrow> nat \<Rightarrow> real" where
  "randomAt r k = r"







text \<open>The messages sent between an earlier state and a later one.\<close>

definition sentSince :: "server \<Rightarrow> server \<Rightarrow> (string \<times> message) list" where
  "sentSince s s' = drop (length (outbox s)) (outbox s')"

text \<open>The size \<open>endGame\<close> reports for a winner id.\<close>

definition winnerSize :: "lobby \<Rightarrow> string option \<Rightarrow> real" where
  "winnerSize l w =
     (case w of None \<Rightarrow> 0
      | Some k \<Rightarrow> (case map_of (l_players l) k of None \<Rightarrow> 0 | Some p \<Rightarrow> p_size p))"

text \<open>The state after the removal block of \<open>absorbPlayer\<close>, for the connection found.\<close>

definition eliminated :: "server \<Rightarrow> string \<Rightarrow> string \<Rightarrow> string \<Rightarrow> string \<times> client \<Rightarrow> server" where
  "eliminated s lobbyId absorberId absorbeId kc =
     sendToClient
       (broadcastToLobby
          ((updLobby lobbyId (\<lambda>l. l\<lparr>l_players := AList.delete absorbeId (l_players l)\<rparr>) s)
             \<lparr>clients := AList.map_entry (fst kc) (\<lambda>c. c\<lparr>c_playerId := None\<rparr>) (clients s)\<rparr>)
          lobbyId (PlayerEaten absorbeId (Some absorberId)))
       (c_id (snd kc)) YouWereEliminated"

text \<open>
  Example states: a player of size 2 next to a player of size 1, the larger one first in
  the roster (\<open>bigA\<close>, \<open>nearB\<close>) or the smaller one first (\<open>nearA\<close>, \<open>bigB\<close>); the first of
  these with the smaller player's socket no longer open; the same after the smaller player's connection has joined
  again and now refers to another player; a lobby in which connection \<open>c1\<close> owns two
  players; and the events by which one connection joins a lobby twice.
\<close>

definition bigA :: player where
  "bigA = playerA\<lparr>p_size := 2\<rparr>"

definition nearB :: player where
  "nearB = playerB\<lparr>p_x := 1\<rparr>"

definition nearA :: player where
  "nearA = playerA\<lparr>p_x := 1\<rparr>"

definition bigB :: player where
  "bigB = playerB\<lparr>p_size := 2\<rparr>"

definition arenaClosed :: server where
  "arenaClosed = (arena bigA nearB [])\<lparr>clients :=
     [(''c1'', arenaClient ''c1'' ''pA''), (''c2'', (arenaClient ''c2'' ''pB'')\<lparr>c_open := False\<rparr>)]\<rparr>"

definition arenaRejoined :: server where
  "arenaRejoined = (arena bigA nearB [])\<lparr>clients :=
     [(''c1'', arenaClient ''c1'' ''pA''), (''c2'', arenaClient ''c2'' ''pX'')]\<rparr>"

definition playerC :: player where
  "playerC = newPlayer ''pC'' ''c1'' ''ann'' 2"

definition sharedArena :: server where
  "sharedArena =
     \<lparr>clients = [(''c1'', arenaClient ''c1'' ''pC''), (''c2'', arenaClient ''c2'' ''pB'')],
      lobbies = [(''L'', (arenaLobby playerA playerB [])\<lparr>l_players :=
                   [(''pA'', playerA), (''pB'', playerB), (''pC'', playerC)]\<rparr>)],
      outbox = [], timers = [(1, GameTickTimer ''L'')], nextTimer = 2, detached = []\<rparr>"

definition joinTwice :: "event list" where
  "joinTwice =
     [Connect ''c1'', Message ''c1'' CreateLobby ''L'' [] exactArith,
      Message ''c1'' (JoinLobby ''L'' ''ann'') [] ''pA'' exactArith,
      Connect ''c2'', Message ''c2'' (JoinLobby ''L'' ''bob'') [] ''pB'' exactArith,
      Message ''c1'' (JoinLobby ''L'' ''ann'') [] ''pC'' exactArith]"

definition ownersOf :: "server \<Rightarrow> string \<Rightarrow> string list" where
  "ownersOf s lobbyId = map (p_clientId \<circ> snd) (rosterOf s lobbyId)"

text \<open>Two players far apart whose last-activity timestamp is 0.\<close>

definition staleA :: player where
  "staleA = playerA\<lparr>p_x := 5, p_lastUpdate := Some 0\<rparr>"

definition staleB :: player where
  "staleB = playerB\<lparr>p_x := - 5, p_lastUpdate := Some 0\<rparr>"

text \<open>
  The broadcast of one message to the roster of a lobby, the batch of food items that a
  respawn starting at random call \<open>r\<close> appends, and the map extents.
\<close>

definition toRoster :: "server \<Rightarrow> lobby \<Rightarrow> message \<Rightarrow> (string \<times> message) list" where
  "toRoster s l msg = map (\<lambda>c. (c, msg)) (recipients s l)"

definition respawnBatch :: "(nat \<Rightarrow> real) \<Rightarrow> nat \<Rightarrow> nat \<Rightarrow> (real \<times> real) list" where
  "respawnBatch rnd r n = map (\<lambda>j. randomFood rnd (r + 2 * j)) [0..<n]"

definition onMap :: "real \<times> real \<Rightarrow> bool" where
  "onMap f = (- mapWidth \<le> fst f \<and> fst f < mapWidth \<and> - mapHeight \<le> snd f \<and> snd f < mapHeight)"

definition touchesFood :: "player \<Rightarrow> real \<times> real \<Rightarrow> bool" where
  "touchesFood p food =
     (sqrt ((p_x p - fst food) * (p_x p - fst food) + (p_y p - snd food) * (p_y p - snd food))
        < p_size p + foodSize)"

definition foodOf :: "server \<Rightarrow> string \<Rightarrow> (real \<times> real) list" where
  "foodOf s lobbyId = (case map_of (lobbies s) lobbyId of None \<Rightarrow> [] | Some l \<Rightarrow> l_foodItems l)"

definition respawnAfter :: "(nat \<Rightarrow> real) \<Rightarrow> nat \<Rightarrow> (real \<times> real) list \<Rightarrow> (real \<times> real) list" where
  "respawnAfter rnd r rest =
     (if real (length rest) < real foodCount * respawnThreshold
      then respawnBatch rnd r respawnAmount else [])"

text \<open>
  \<open>foodIndicesInRange\<close> runs the food loop over a list of indices and says whether every
  index was below the length of the food list when the loop reached it.
\<close>

primrec foodIndicesInRange ::
  "string \<Rightarrow> (nat \<Rightarrow> real) \<Rightarrow> string \<Rightarrow> nat list \<Rightarrow> server \<times> nat \<Rightarrow> bool" where
  "foodIndicesInRange lobbyId rnd key [] st = True"
| "foodIndicesInRange lobbyId rnd key (i # is) st =
     (i < foodCountOf (fst st) lobbyId
      \<and> foodIndicesInRange lobbyId rnd key is (foodStep lobbyId rnd key i st))"

text \<open>
  A random source whose \<open>k\<close>-th value is \<open>k / 20\<close>, and a player far from the centre.
\<close>

definition rampAt :: "nat \<Rightarrow> real" where
  "rampAt k = real k / 20"

definition farB :: player where
  "farB = playerB\<lparr>p_x := - 5\<rparr>"

text \<open>
  A roster is well formed when its keys are distinct, every player is stored under its own
  id and no player is smaller than \<open>playerStartSize\<close>; a server state is well formed when
  the roster of every registered lobby is. \<open>grown ps ps'\<close> says that every player of \<open>ps'\<close>
  is in \<open>ps\<close> under the same key with a size that is not larger.
\<close>

definition wfRoster :: "(string \<times> player) list \<Rightarrow> bool" where
  "wfRoster ps =
     (distinct (map fst ps)
      \<and> (\<forall>kp \<in> set ps. p_id (snd kp) = fst kp \<and> playerStartSize \<le> p_size (snd kp)))"

definition wellFormed :: "server \<Rightarrow> bool" where
  "wellFormed s = (\<forall>lobbyId l. map_of (lobbies s) lobbyId = Some l \<longrightarrow> wfRoster (l_players l))"

definition grown :: "(string \<times> player) list \<Rightarrow> (string \<times> player) list \<Rightarrow> bool" where
  "grown ps ps' =
     (\<forall>kp' \<in> set ps'. \<exists>kp \<in> set ps. fst kp = fst kp' \<and> p_size (snd kp) \<le> p_size (snd kp'))"

text \<open>
  \<open>keeps lobbyId s s'\<close>: if \<open>s\<close> is well formed then so is \<open>s'\<close>, and every player in the
  roster of the lobby in \<open>s'\<close> was in it in \<open>s\<close> with a size that is not larger.
\<close>

definition keeps :: "string \<Rightarrow> server \<Rightarrow> server \<Rightarrow> bool" where
  "keeps lobbyId s s' =
     (wellFormed s \<longrightarrow> wellFormed s' \<and> grown (rosterOf s lobbyId) (rosterOf s' lobbyId))"


section \<open>Verified properties\<close>

subsection \<open>Basic facts about sending and about association lists\<close>

lemma sendToClient_eq:
  "sendToClient s c m = s\<lparr>outbox := outbox s @ (if isOpen s c then [(c, m)] else [])\<rparr>"
  by (simp add: sendToClient_def)

lemma lobbies_sendToClient [simp]: "lobbies (sendToClient s c m) = lobbies s"
  by (simp add: sendToClient_def)

lemma lobbies_broadcastToLobby [simp]: "lobbies (broadcastToLobby s l m) = lobbies s"
  by (simp add: broadcastToLobby_def split: option.splits)

lemma lobbies_broadcastLobbyUpdate [simp]: "lobbies (broadcastLobbyUpdate s l) = lobbies s"
  by (simp add: broadcastLobbyUpdate_def split: option.splits)

lemma lobbies_detachLobby [simp]: "lobbies (detachLobby lid s) = lobbies s"
  by (simp add: detachLobby_def split: option.splits)
lemma clients_detachLobby [simp]: "clients (detachLobby lid s) = clients s"
  by (simp add: detachLobby_def split: option.splits)
lemma outbox_detachLobby [simp]: "outbox (detachLobby lid s) = outbox s"
  by (simp add: detachLobby_def split: option.splits)
lemma nextTimer_detachLobby [simp]: "nextTimer (detachLobby lid s) = nextTimer s"
  by (simp add: detachLobby_def split: option.splits)

lemma sqrt_less_iff_sq: "0 \<le> y \<Longrightarrow> (sqrt x < y) = (x < y * y)"
proof -
  assume y: "0 \<le> y"
  have "sqrt x < y \<longleftrightarrow> sqrt x < sqrt (y * y)" using y by simp
  then show ?thesis by (simp only: real_sqrt_less_iff)
qed

lemma update_fresh_append:
  "k \<notin> fst ` set xs \<Longrightarrow> AList.update k v xs = xs @ [(k, v)]"
  by (induction xs) auto

subsection \<open>Joining a lobby\<close>

text \<open>
  C9. A join request fails in three cases, each with its own error message: the lobby code
  is not registered, the lobby is not in state \<open>lobby\<close>, the roster has reached
  \<open>maxPlayers\<close>. In each case the resulting server state is the old state with at most the
  error message appended to the outbox, addressed to the requester (it is sent when the
  requester's socket is open): no player is created and neither the registries nor any
  lobby field change.
\<close>

theorem handleJoinLobby_failure:
  "(map_of (lobbies s) lobbyId = None \<longrightarrow>
      handleJoinLobby s c lobbyId n u
        = s\<lparr>outbox := outbox s @ (if isOpen s c then [(c, Error ''Lobby not found'')] else [])\<rparr>)
   \<and> (\<forall>l. map_of (lobbies s) lobbyId = Some l \<and> l_gameState l \<noteq> Lobby \<longrightarrow>
      handleJoinLobby s c lobbyId n u
        = s\<lparr>outbox := outbox s @ (if isOpen s c then [(c, Error ''Game already in progress'')] else [])\<rparr>)
   \<and> (\<forall>l. map_of (lobbies s) lobbyId = Some l \<and> l_gameState l = Lobby
           \<and> maxPlayers \<le> length (l_players l) \<longrightarrow>
      handleJoinLobby s c lobbyId n u
        = s\<lparr>outbox := outbox s @ (if isOpen s c then [(c, Error ''Lobby is full'')] else [])\<rparr>)
   \<and> distinct [''Lobby not found'', ''Game already in progress'', ''Lobby is full'']"
  by (simp add: handleJoinLobby_def sendToClient_eq)

theorem handleJoinLobby_failure_witness:
  "handleJoinLobby (connection initial ''c1'') ''c1'' ''L'' ''ann'' ''p1''
     = (connection initial ''c1'')\<lparr>outbox := [(''c1'', Error ''Lobby not found'')]\<rparr>
   \<and> handleJoinLobby
       ((connection initial ''c1'')\<lparr>lobbies := [(''L'', DEFAULT_LOBBY\<lparr>l_gameState := Playing\<rparr>)]\<rparr>)
       ''c1'' ''L'' ''ann'' ''p1''
     = (connection initial ''c1'')\<lparr>lobbies := [(''L'', DEFAULT_LOBBY\<lparr>l_gameState := Playing\<rparr>)],
          outbox := [(''c1'', Error ''Game already in progress'')]\<rparr>
   \<and> handleJoinLobby ((connection initial ''c1'')\<lparr>lobbies := [(''L'', fullLobby)]\<rparr>)
       ''c1'' ''L'' ''ann'' ''p1''
     = (connection initial ''c1'')\<lparr>lobbies := [(''L'', fullLobby)],
          outbox := [(''c1'', Error ''Lobby is full'')]\<rparr>"
  using handleJoinLobby_failure [of "connection initial ''c1''" "''L''" "''c1''" "''ann''" "''p1''"]
    handleJoinLobby_failure
      [of "(connection initial ''c1'')\<lparr>lobbies := [(''L'', DEFAULT_LOBBY\<lparr>l_gameState := Playing\<rparr>)]\<rparr>"
          "''L''" "''c1''" "''ann''" "''p1''"]
    handleJoinLobby_failure
      [of "(connection initial ''c1'')\<lparr>lobbies := [(''L'', fullLobby)]\<rparr>"
          "''L''" "''c1''" "''ann''" "''p1''"]
  by (simp add: connection_def initial_def isOpen_def DEFAULT_LOBBY_def fullLobby_def
      maxPlayers_def)

lemma rosterOf_join:
  assumes "map_of (lobbies s) lobbyId = Some l" "l_gameState l = Lobby"
    "length (l_players l) < maxPlayers"
  shows "rosterOf (handleJoinLobby s c lobbyId n u) lobbyId
           = AList.update u (newPlayer u c n (length (l_players l))) (l_players l)"
  using assms
  by (simp add: handleJoinLobby_def rosterOf_def Let_def updLobby_def map_of_map_entry
      split: option.splits)







subsection \<open>Projections of the state after the primitive operations\<close>

lemma map_of_map_entry_if:
  "map_of (AList.map_entry k f xs) k' = (if k' = k then map_option f (map_of xs k) else map_of xs k')"
  by (simp add: map_of_map_entry split: option.splits)

lemma lobby_updLobby [simp]:
  "map_of (lobbies (updLobby lid f s)) lid'
     = (if lid' = lid then map_option f (map_of (lobbies s) lid) else map_of (lobbies s) lid')"
  by (simp add: updLobby_def map_of_map_entry_if)

lemma lobbies_setTimer [simp]: "lobbies (setTimer t s) = lobbies s"
  by (simp add: setTimer_def)
lemma lobbies_clearTimer [simp]: "lobbies (clearTimer h s) = lobbies s"
  by (simp add: clearTimer_def split: option.splits)

lemma timers_updLobby [simp]: "timers (updLobby lid f s) = timers s"
  by (simp add: updLobby_def)
lemma nextTimer_updLobby [simp]: "nextTimer (updLobby lid f s) = nextTimer s"
  by (simp add: updLobby_def)
lemma clients_updLobby [simp]: "clients (updLobby lid f s) = clients s"
  by (simp add: updLobby_def)
lemma outbox_updLobby [simp]: "outbox (updLobby lid f s) = outbox s"
  by (simp add: updLobby_def)
lemma timers_broadcastToLobby [simp]: "timers (broadcastToLobby s l m) = timers s"
  by (simp add: broadcastToLobby_def split: option.splits)
lemma nextTimer_broadcastToLobby [simp]: "nextTimer (broadcastToLobby s l m) = nextTimer s"
  by (simp add: broadcastToLobby_def split: option.splits)
lemma clients_broadcastToLobby [simp]: "clients (broadcastToLobby s l m) = clients s"
  by (simp add: broadcastToLobby_def split: option.splits)
lemma clients_setTimer [simp]: "clients (setTimer t s) = clients s"
  by (simp add: setTimer_def)
lemma clients_clearTimer [simp]: "clients (clearTimer h s) = clients s"
  by (simp add: clearTimer_def split: option.splits)
lemma outbox_setTimer [simp]: "outbox (setTimer t s) = outbox s"
  by (simp add: setTimer_def)
lemma outbox_clearTimer [simp]: "outbox (clearTimer h s) = outbox s"
  by (simp add: clearTimer_def split: option.splits)
lemma nextTimer_clearTimer [simp]: "nextTimer (clearTimer h s) = nextTimer s"
  by (simp add: clearTimer_def split: option.splits)
lemma timers_setTimer [simp]: "timers (setTimer t s) = timers s @ [(nextTimer s, t)]"
  by (simp add: setTimer_def)
lemma nextTimer_setTimer [simp]: "nextTimer (setTimer t s) = Suc (nextTimer s)"
  by (simp add: setTimer_def)
lemma timers_clearTimer [simp]: "timers (clearTimer (Some h) s) = AList.delete h (timers s)"
  by (simp add: clearTimer_def)

lemma outbox_broadcastToLobby:
  "map_of (lobbies s) lid = Some l \<Longrightarrow>
   outbox (broadcastToLobby s lid m) = outbox s @ map (\<lambda>c. (c, m)) (recipients s l)"
  by (simp add: broadcastToLobby_def)

lemma recipients_clients:
  "clients s' = clients s \<Longrightarrow> recipients s' l = recipients s l"
  by (simp add: recipients_def isOpen_def [abs_def])

lemma recipients_updLobby [simp]: "recipients (updLobby lid f s) l = recipients s l"
  by (rule recipients_clients) simp
lemma recipients_setTimer [simp]: "recipients (setTimer t s) l = recipients s l"
  by (rule recipients_clients) simp
lemma recipients_clearTimer [simp]: "recipients (clearTimer h s) l = recipients s l"
  by (rule recipients_clients) simp
lemma recipients_broadcastToLobby [simp]: "recipients (broadcastToLobby s lid m) l = recipients s l"
  by (rule recipients_clients) simp
lemma recipients_fields [simp]:
  "recipients s (l\<lparr>l_gameState := g\<rparr>) = recipients s l"
  "recipients s (l\<lparr>l_countdown := n\<rparr>) = recipients s l"
  "recipients s (l\<lparr>l_foodItems := fs\<rparr>) = recipients s l"
  "recipients s (l\<lparr>l_countdownInterval := h\<rparr>) = recipients s l"
  "recipients s (l\<lparr>l_gameTickInterval := h\<rparr>) = recipients s l"
  by (simp_all add: recipients_def)





subsection \<open>The countdown\<close>





subsection \<open>endGame and absorbPlayer\<close>

lemma clients_sendToClient [simp]: "clients (sendToClient s c m) = clients s"
  by (simp add: sendToClient_def)
lemma timers_sendToClient [simp]: "timers (sendToClient s c m) = timers s"
  by (simp add: sendToClient_def)
lemma nextTimer_sendToClient [simp]: "nextTimer (sendToClient s c m) = nextTimer s"
  by (simp add: sendToClient_def)
lemma recipients_sendToClient [simp]: "recipients (sendToClient s c m) l = recipients s l"
  by (rule recipients_clients) simp

lemma map_entry_id:
  "map_of xs k = Some v \<Longrightarrow> f v = v \<Longrightarrow> AList.map_entry k f xs = xs"
  by (induction xs) (auto split: if_splits)

lemma endGame_effect:
  assumes "map_of (lobbies s) lid = Some l" and "l_gameState l = Playing"
  shows "lobbies (endGame s lid w) = AList.map_entry lid (\<lambda>l. l\<lparr>l_gameTickInterval := None\<rparr>) (lobbies s)"
    and "clients (endGame s lid w) = clients s"
    and "outbox (endGame s lid w)
           = outbox s @ map (\<lambda>c. (c, GameOver w (winnerSize l w))) (recipients s l)"
    and "timers (endGame s lid w)
           = (case l_gameTickInterval l of None \<Rightarrow> timers s | Some h \<Rightarrow> AList.delete h (timers s))
             @ [(nextTimer s, EndGameTimeout 3000 lid)]"
proof -
  have id: "AList.map_entry lid (\<lambda>l. l\<lparr>l_gameTickInterval := None\<rparr>) (lobbies s) = lobbies s"
    if "l_gameTickInterval l = None"
    using assms(1) that by (intro map_entry_id [where v = l]) simp_all
  show "lobbies (endGame s lid w) = AList.map_entry lid (\<lambda>l. l\<lparr>l_gameTickInterval := None\<rparr>) (lobbies s)"
    using assms id by (cases "l_gameTickInterval l") (simp_all add: endGame_def Let_def updLobby_def)
  show "clients (endGame s lid w) = clients s"
    using assms by (cases "l_gameTickInterval l") (simp_all add: endGame_def Let_def)
  show "outbox (endGame s lid w)
           = outbox s @ map (\<lambda>c. (c, GameOver w (winnerSize l w))) (recipients s l)"
    using assms
    by (cases "l_gameTickInterval l")
       (simp_all add: endGame_def Let_def outbox_broadcastToLobby winnerSize_def
          split: option.splits)
  show "timers (endGame s lid w)
           = (case l_gameTickInterval l of None \<Rightarrow> timers s | Some h \<Rightarrow> AList.delete h (timers s))
             @ [(nextTimer s, EndGameTimeout 3000 lid)]"
    using assms by (cases "l_gameTickInterval l") (simp_all add: endGame_def Let_def)
qed

lemma isOpen_detach [simp]:
  "isOpen (s'\<lparr>clients := AList.map_entry k (\<lambda>c. c\<lparr>c_playerId := None\<rparr>) (clients s)\<rparr>) = isOpen s"
  by (simp add: isOpen_def [abs_def] map_of_map_entry_if fun_eq_iff split: option.splits)

lemma recipients_detach [simp]:
  "recipients (s'\<lparr>clients := AList.map_entry k (\<lambda>c. c\<lparr>c_playerId := None\<rparr>) (clients s)\<rparr>) l
     = recipients s l"
  by (simp add: recipients_def)

lemma isOpen_updLobby [simp]: "isOpen (updLobby lid f s) = isOpen s"
  by (simp add: isOpen_def [abs_def])

lemma eliminated_effect:
  assumes "map_of (lobbies s) lid = Some l"
  shows "map_of (lobbies (eliminated s lid a b kc)) lid = Some (l\<lparr>l_players := AList.delete b (l_players l)\<rparr>)"
    and "clients (eliminated s lid a b kc)
           = AList.map_entry (fst kc) (\<lambda>c. c\<lparr>c_playerId := None\<rparr>) (clients s)"
    and "outbox (eliminated s lid a b kc)
           = outbox s
             @ map (\<lambda>c. (c, PlayerEaten b (Some a)))
                 (recipients s (l\<lparr>l_players := AList.delete b (l_players l)\<rparr>))
             @ (if isOpen s (c_id (snd kc)) then [(c_id (snd kc), YouWereEliminated)] else [])"
    and "timers (eliminated s lid a b kc) = timers s"
  using assms
  by (simp_all add: eliminated_def sendToClient_eq broadcastToLobby_def isOpen_def
      map_of_map_entry_if split: option.splits)

lemma absorbPlayer_found:
  assumes "map_of (lobbies s) lid = Some l"
    and "find (\<lambda>kc. c_playerId (snd kc) = Some b) (clients s) = Some kc"
  shows "absorbPlayer s lid a b
           = (if length (AList.delete b (l_players l)) \<le> 1 \<and> l_gameState l = Playing
              then endGame (eliminated s lid a b kc) lid (firstId (AList.delete b (l_players l)))
              else eliminated s lid a b kc)"
  using assms eliminated_effect(1) [OF assms(1), of a b kc]
  by (simp add: absorbPlayer_def Let_def eliminated_def [symmetric])


lemma recipients_after_detach:
  "clients s' = AList.map_entry k (\<lambda>c. c\<lparr>c_playerId := None\<rparr>) (clients s) \<Longrightarrow>
   recipients s' l = recipients s l"
proof -
  assume c: "clients s' = AList.map_entry k (\<lambda>c. c\<lparr>c_playerId := None\<rparr>) (clients s)"
  have "isOpen s' = isOpen s"
    by (simp add: isOpen_def fun_eq_iff c map_of_map_entry_if split: option.splits)
  then show ?thesis by (simp add: recipients_def)
qed

lemma filter_fst_map_notin:
  "k \<notin> set rs \<Longrightarrow> filter (\<lambda>cm. fst cm = k) (map (\<lambda>c. (c, m)) rs) = []"
  by (induction rs) auto

lemma recipients_subset:
  "set (recipients s l) \<subseteq> set (map (p_clientId \<circ> snd) (l_players l))"
  by (auto simp add: recipients_def)

lemma sentSince_append [simp]: "outbox s' = outbox s @ xs \<Longrightarrow> sentSince s s' = xs"
  by (simp add: sentSince_def)

text \<open>
  C10, as the code has it. When \<open>absorbPlayer\<close> finds the connection of the absorbed player
  and that connection owns no other player left in the roster, the only message the
  connection receives during the absorption is \<open>you_were_eliminated\<close> (sent when its socket
  is open): neither the \<open>player_eaten\<close> broadcast nor a \<open>game_over\<close> that follows reaches it.
\<close>

theorem absorbed_connection_messages:
  assumes l: "map_of (lobbies s) lobbyId = Some l"
    and f: "find (\<lambda>kc. c_playerId (snd kc) = Some absorbeId) (clients s) = Some (k, c)"
    and k: "c_id c = k"
    and own: "k \<notin> set (map (p_clientId \<circ> snd) (AList.delete absorbeId (l_players l)))"
  shows "filter (\<lambda>cm. fst cm = k) (sentSince s (absorbPlayer s lobbyId absorberId absorbeId))
           = (if isOpen s k then [(k, YouWereEliminated)] else [])"
proof -
  let ?l' = "l\<lparr>l_players := AList.delete absorbeId (l_players l)\<rparr>"
  let ?e = "eliminated s lobbyId absorberId absorbeId (k, c)"
  let ?bc = "map (\<lambda>c. (c, PlayerEaten absorbeId (Some absorberId))) (recipients s ?l')"
  let ?you = "if isOpen s k then [(k, YouWereEliminated)] else []"
  note e = eliminated_effect [OF l, of absorberId absorbeId "(k, c)"]
  have notin: "k \<notin> set (recipients s ?l')"
    using own recipients_subset [of s ?l'] by auto
  have oe: "outbox ?e = outbox s @ ?bc @ ?you" using e(3) k by simp
  have fbc: "filter (\<lambda>cm. fst cm = k) ?bc = []" by (rule filter_fst_map_notin [OF notin])
  show ?thesis
  proof (cases "length (AList.delete absorbeId (l_players l)) \<le> 1 \<and> l_gameState l = Playing")
    case False
    have "absorbPlayer s lobbyId absorberId absorbeId = ?e"
      by (simp only: absorbPlayer_found [OF l f] if_not_P [OF False])
    then show ?thesis using oe fbc by simp
  next
    case True
    let ?w = "firstId (AList.delete absorbeId (l_players l))"
    have ab: "absorbPlayer s lobbyId absorberId absorbeId = endGame ?e lobbyId ?w"
      by (simp only: absorbPlayer_found [OF l f] if_P [OF True])
    have pl: "l_gameState ?l' = Playing" using True by simp
    have re: "recipients ?e ?l' = recipients s ?l'"
      by (rule recipients_after_detach [where k = k]) (use e(2) in simp)
    have "outbox (endGame ?e lobbyId ?w)
            = outbox s @ ?bc @ ?you @ map (\<lambda>c. (c, GameOver ?w (winnerSize ?l' ?w))) (recipients s ?l')"
      using endGame_effect(3) [OF e(1) pl, of ?w] oe re by simp
    moreover have "filter (\<lambda>cm. fst cm = k)
            (map (\<lambda>c. (c, GameOver ?w (winnerSize ?l' ?w))) (recipients s ?l')) = []"
      by (rule filter_fst_map_notin [OF notin])
    ultimately show ?thesis using fbc ab by simp
  qed
qed

lemma map_snd_delete_map_entry:
  assumes "map_of xs k' = Some v" and "g (f v) = g v"
  shows "map (g \<circ> snd) (AList.delete k (AList.map_entry k' f xs)) = map (g \<circ> snd) (AList.delete k xs)"
  using assms by (induction xs) (auto split: if_splits)

lemma recipients_delete_map_entry:
  assumes "map_of (l_players l) k' = Some v" and "p_clientId (f v) = p_clientId v"
  shows "recipients s (l\<lparr>l_players := AList.delete k (AList.map_entry k' f (l_players l))\<rparr>)
           = recipients s (l\<lparr>l_players := AList.delete k (l_players l)\<rparr>)"
  using map_snd_delete_map_entry [of "l_players l" k' v p_clientId f k, OF assms]
  by (simp add: recipients_def comp_def)

lemma rosterOf_endGame:
  assumes "map_of (lobbies s) lid = Some l" and "l_gameState l = Playing"
  shows "rosterOf (endGame s lid w) lid = l_players l"
  using assms endGame_effect(1) [OF assms, of w]
  by (simp add: rosterOf_def map_of_map_entry_if)

lemma length_fst_resolvePair [simp]: "length (fst (resolvePair lid i j st)) = length (fst st)"
  by (simp add: resolvePair_def Let_def writeObj_def)

lemma checkPlayerCollisions_two:
  assumes l: "map_of (lobbies s) lid = Some l" and n: "length (l_players l) = 2"
    and id0: "p_id (snd (l_players l ! 0)) \<noteq> []"
  shows "checkPlayerCollisions s lid = snd (resolvePair lid 0 1 (map snd (l_players l), s))"
proof -
  let ?st0 = "(map snd (l_players l), s)"
  let ?st1 = "resolvePair lid 0 (Suc 0) ?st0"
  have u: "[0..<2] = [0, Suc 0]" "[Suc 0..<2] = [Suc 0]" "[Suc (Suc 0)..<2] = []"
    by (simp_all add: upt_rec [of _ "numeral _"] upt_rec [of _ "Suc _"])
  have c0: "collideFrom lid 0 ?st0 = ?st1"
    using id0 n by (simp add: collideFrom_def u)
  have c1: "collideFrom lid (Suc 0) ?st1 = ?st1"
    using n by (simp add: collideFrom_def u)
  show ?thesis
    using l n by (simp add: checkPlayerCollisions_def u c0 c1)
qed

text \<open>
  C3, as the code has it. Two players \<open>a\<close> (size 2) and \<open>b\<close> (size 1) of a lobby in play
  touch, and a registered connection \<open>k\<close> currently refers to \<open>b\<close> as its player. The
  pass resolves the pair at the indices of the two objects in its array, the smaller index
  first, whichever of the two players that is. Resolving the pair leaves \<open>a\<close> with size 2.5
  (in the array of the pass and in the roster), removes \<open>b\<close> from the roster and detaches
  \<open>k\<close> from any player. The messages sent are exactly: one \<open>player_eaten{eaten: b, by: a}\<close>
  to each open connection of the players left in the roster, then one \<open>you_were_eliminated\<close>
  to \<open>k\<close> if the socket of \<open>k\<close> is open and none otherwise, then nothing but \<open>game_over\<close>
  messages (which follow when at most one player is left). When the two are the only
  players of the lobby, this is the whole collision pass.
\<close>

theorem absorption_two_to_one:
  assumes l: "map_of (lobbies s) lobbyId = Some l" and pl: "l_gameState l = Playing"
    and i: "ia < length objs" and j: "ib < length objs" and ij: "ia \<noteq> ib"
    and a: "objs ! ia = a" and b: "objs ! ib = b"
    and ra: "map_of (l_players l) (p_id a) = Some a"
    and rb: "map_of (l_players l) (p_id b) = Some b"
    and ids: "p_id a \<noteq> p_id b" "p_id a \<noteq> []" "p_id b \<noteq> []"
    and sa: "p_size a = 2" and sb: "p_size b = 1"
    and touch: "sqrt ((p_x a - p_x b) * (p_x a - p_x b) + (p_y a - p_y b) * (p_y a - p_y b))
                  < p_size a + p_size b"
    and f: "find (\<lambda>kc. c_playerId (snd kc) = Some (p_id b)) (clients s) = Some (k, c)"
    and k: "c_id c = k" and mk: "map_of (clients s) k = Some c"
  shows "p_size (fst (resolvePair lobbyId (min ia ib) (max ia ib) (objs, s)) ! ia) = 5 / 2
       \<and> map_option p_size
            (map_of (rosterOf (snd (resolvePair lobbyId (min ia ib) (max ia ib) (objs, s))) lobbyId)
               (p_id a)) = Some (5 / 2)
       \<and> map_of (rosterOf (snd (resolvePair lobbyId (min ia ib) (max ia ib) (objs, s))) lobbyId)
            (p_id b) = None
       \<and> map_option c_playerId
            (map_of (clients (snd (resolvePair lobbyId (min ia ib) (max ia ib) (objs, s)))) k)
           = Some None
       \<and> (\<exists>over. sentSince s (snd (resolvePair lobbyId (min ia ib) (max ia ib) (objs, s)))
                    = map (\<lambda>r. (r, PlayerEaten (p_id b) (Some (p_id a))))
                        (recipients s (l\<lparr>l_players := AList.delete (p_id b) (l_players l)\<rparr>))
                      @ (if c_open c then [(k, YouWereEliminated)] else []) @ over
                  \<and> (\<forall>cm \<in> set over. \<exists>w z. snd cm = GameOver w z))
       \<and> (objs = map snd (l_players l) \<and> length objs = 2 \<longrightarrow>
            checkPlayerCollisions s lobbyId
              = snd (resolvePair lobbyId (min ia ib) (max ia ib) (objs, s)))"
proof -
  let ?a' = "absorbInto a b"
  let ?s1 = "updPlayer lobbyId (p_id a) (\<lambda>_. ?a') s"
  let ?l1 = "l\<lparr>l_players := AList.map_entry (p_id a) (\<lambda>_. ?a') (l_players l)\<rparr>"
  let ?R = "AList.delete (p_id b) (AList.map_entry (p_id a) (\<lambda>_. ?a') (l_players l))"
  let ?l2 = "l\<lparr>l_players := ?R\<rparr>"
  let ?e = "eliminated ?s1 lobbyId (p_id a) (p_id b) (k, c)"
  let ?bc = "map (\<lambda>r. (r, PlayerEaten (p_id b) (Some (p_id a))))
               (recipients s (l\<lparr>l_players := AList.delete (p_id b) (l_players l)\<rparr>))"
  let ?you = "if c_open c then [(k, YouWereEliminated)] else []"
  let ?res = "resolvePair lobbyId (min ia ib) (max ia ib) (objs, s)"
  have ida: "p_id ?a' = p_id a" and sz: "p_size ?a' = 5 / 2"
    using sa sb by (simp_all add: absorbInto_def)
  have sym: "(p_x b - p_x a) * (p_x b - p_x a) + (p_y b - p_y a) * (p_y b - p_y a)
               = (p_x a - p_x b) * (p_x a - p_x b) + (p_y a - p_y b) * (p_y a - p_y b)"
    by (simp add: algebra_simps)
  have rp: "?res = (objs[ia := ?a'], absorbPlayer ?s1 lobbyId (p_id a) (p_id b))"
  proof (cases "ia < ib")
    case True
    then have m: "min ia ib = ia" "max ia ib = ib" by simp_all
    show ?thesis
      unfolding m using a b ids touch sa sb
      by (simp add: resolvePair_def Let_def writeObj_def absorptionThreshold_def ida)
  next
    case False
    then have m: "min ia ib = ib" "max ia ib = ia" using ij by simp_all
    show ?thesis
      unfolding m using a b ids touch sa sb
      by (simp add: resolvePair_def Let_def writeObj_def absorptionThreshold_def ida sym)
  qed
  have l1: "map_of (lobbies ?s1) lobbyId = Some ?l1"
    using l by (simp add: updPlayer_def)
  have c1: "clients ?s1 = clients s" and o1: "outbox ?s1 = outbox s"
    by (simp_all add: updPlayer_def)
  have f1: "find (\<lambda>kc. c_playerId (snd kc) = Some (p_id b)) (clients ?s1) = Some (k, c)"
    using f c1 by simp
  note e = eliminated_effect [OF l1, of "p_id a" "p_id b" "(k, c)"]
  have e1: "map_of (lobbies ?e) lobbyId = Some ?l2" using e(1) by simp
  have opn: "isOpen ?s1 k = c_open c" using mk c1 by (simp add: isOpen_def)
  have rec: "recipients ?s1 ?l2 = recipients s (l\<lparr>l_players := AList.delete (p_id b) (l_players l)\<rparr>)"
  proof -
    have "recipients ?s1 ?l2 = recipients s ?l2" by (rule recipients_clients [OF c1])
    also have "\<dots> = recipients s (l\<lparr>l_players := AList.delete (p_id b) (l_players l)\<rparr>)"
      by (rule recipients_delete_map_entry [OF ra]) (simp add: absorbInto_def)
    finally show ?thesis .
  qed
  have oe: "outbox ?e = outbox s @ ?bc @ ?you"
    using e(3) k opn rec o1 by simp
  have Ra: "map_of ?R (p_id a) = Some ?a'"
    using ra ids by (simp add: map_of_map_entry_if)
  have Rb: "map_of ?R (p_id b) = None"
    by (simp add: delete_conv')
  have ce: "map_option c_playerId (map_of (clients ?e) k) = Some None"
    using e(2) mk c1 by (simp add: map_of_map_entry_if)
  have goal1: "p_size (fst ?res ! ia) = 5 / 2"
    using i sz by (simp add: rp)
  have pass: "checkPlayerCollisions s lobbyId = snd ?res"
    if o: "objs = map snd (l_players l) \<and> length objs = 2"
  proof -
    have ol: "length objs = 2" and om: "objs = map snd (l_players l)" using o by blast+
    have "length (map snd (l_players l)) = 2" using ol unfolding om .
    then have n: "length (l_players l) = 2" by simp
    have "ia < 2" "ib < 2" using i j ol by simp_all
    then have m: "min ia ib = 0" "max ia ib = 1" using ij by auto
    have "ia = 0 \<or> ib = 0" using \<open>ia < 2\<close> \<open>ib < 2\<close> ij by arith
    then have "objs ! 0 = a \<or> objs ! 0 = b" using a b by auto
    then have "p_id (objs ! 0) \<noteq> []" using ids by auto
    then have id0: "p_id (snd (l_players l ! 0)) \<noteq> []" using om n by simp
    show ?thesis
      unfolding m using checkPlayerCollisions_two [OF l n id0] om by simp
  qed
  have main: "map_option p_size (map_of (rosterOf (snd ?res) lobbyId) (p_id a)) = Some (5 / 2)
       \<and> map_of (rosterOf (snd ?res) lobbyId) (p_id b) = None
       \<and> map_option c_playerId (map_of (clients (snd ?res)) k) = Some None
       \<and> (\<exists>over. sentSince s (snd ?res) = ?bc @ ?you @ over
                  \<and> (\<forall>cm \<in> set over. \<exists>w z. snd cm = GameOver w z))"
  proof (cases "length (AList.delete (p_id b) (l_players ?l1)) \<le> 1 \<and> l_gameState ?l1 = Playing")
    case False
    have ab: "absorbPlayer ?s1 lobbyId (p_id a) (p_id b) = ?e"
      using if_not_P [OF False] by (simp only: absorbPlayer_found [OF l1 f1])
    have "sentSince s ?e = ?bc @ ?you @ []" using oe by simp
    then show ?thesis
      using Ra Rb ce e1 sz unfolding rp ab
      by (simp add: rosterOf_def)
  next
    case True
    let ?w = "firstId ?R"
    have "absorbPlayer ?s1 lobbyId (p_id a) (p_id b)
            = endGame ?e lobbyId (firstId (AList.delete (p_id b) (l_players ?l1)))"
      using if_P [OF True] by (simp only: absorbPlayer_found [OF l1 f1])
    then have ab: "absorbPlayer ?s1 lobbyId (p_id a) (p_id b) = endGame ?e lobbyId ?w"
      by simp
    have pl2: "l_gameState ?l2 = Playing" using pl by simp
    note g = endGame_effect [OF e1 pl2, of ?w]
    have "sentSince s (endGame ?e lobbyId ?w)
            = ?bc @ ?you
              @ map (\<lambda>c. (c, GameOver ?w (winnerSize ?l2 ?w))) (recipients ?e ?l2)"
      using g(3) oe by simp
    moreover have "rosterOf (endGame ?e lobbyId ?w) lobbyId = ?R"
      using rosterOf_endGame [OF e1 pl2, of ?w] by simp
    moreover have "clients (endGame ?e lobbyId ?w) = clients ?e" by (rule g(2))
    ultimately show ?thesis
      using Ra Rb ce sz unfolding rp ab
      by auto
  qed
  show ?thesis using goal1 main pass by blast
qed

lemmas arena_defs = arena_def arenaLobby_def arenaClient_def playerA_def playerB_def newPlayer_def
  playerColors_def playerStartSize_def

theorem absorption_two_to_one_witness:
  "p_size (fst (resolvePair ''L'' 0 1 ([bigA, nearB], arena bigA nearB [])) ! 0) = 5 / 2
   \<and> map_of (rosterOf (checkPlayerCollisions (arena bigA nearB []) ''L'') ''L'') ''pB'' = None
   \<and> map_option c_playerId
        (map_of (clients (checkPlayerCollisions (arena bigA nearB []) ''L'')) ''c2'') = Some None
   \<and> p_size (fst (resolvePair ''L'' 0 1 ([nearA, bigB], arena nearA bigB [])) ! 1) = 5 / 2
   \<and> map_of (rosterOf (checkPlayerCollisions (arena nearA bigB []) ''L'') ''L'') ''pA'' = None
   \<and> map_option c_playerId
        (map_of (clients (checkPlayerCollisions (arena nearA bigB []) ''L'')) ''c1'') = Some None
   \<and> map_of (rosterOf (checkPlayerCollisions arenaClosed ''L'') ''L'') ''pB'' = None
   \<and> map_option c_playerId (map_of (clients (checkPlayerCollisions arenaClosed ''L'')) ''c2'')
       = Some None"
proof -
  have t1: "sqrt ((p_x bigA - p_x nearB) * (p_x bigA - p_x nearB)
               + (p_y bigA - p_y nearB) * (p_y bigA - p_y nearB)) < p_size bigA + p_size nearB"
    by (simp add: bigA_def nearB_def arena_defs)
  have t2: "sqrt ((p_x bigB - p_x nearA) * (p_x bigB - p_x nearA)
               + (p_y bigB - p_y nearA) * (p_y bigB - p_y nearA)) < p_size bigB + p_size nearA"
    by (simp add: bigB_def nearA_def arena_defs)
  have m: "min (0::nat) 1 = 0" "max (0::nat) 1 = 1" "min (1::nat) 0 = 0" "max (1::nat) 0 = 1"
    by simp_all
  have w1: "p_size (fst (resolvePair ''L'' 0 1 ([bigA, nearB], arena bigA nearB [])) ! 0) = 5 / 2
   \<and> map_of (rosterOf (checkPlayerCollisions (arena bigA nearB []) ''L'') ''L'') ''pB'' = None
   \<and> map_option c_playerId
        (map_of (clients (checkPlayerCollisions (arena bigA nearB []) ''L'')) ''c2'') = Some None"
    using t1 absorption_two_to_one [of "arena bigA nearB []" "''L''" "arenaLobby bigA nearB []"
        0 "[bigA, nearB]" 1 bigA nearB "''c2''" "arenaClient ''c2'' ''pB''"]
    unfolding m
    by (simp add: bigA_def nearB_def arena_defs)
  have w2: "p_size (fst (resolvePair ''L'' 0 1 ([nearA, bigB], arena nearA bigB [])) ! 1) = 5 / 2
   \<and> map_of (rosterOf (checkPlayerCollisions (arena nearA bigB []) ''L'') ''L'') ''pA'' = None
   \<and> map_option c_playerId
        (map_of (clients (checkPlayerCollisions (arena nearA bigB []) ''L'')) ''c1'') = Some None"
    using t2 absorption_two_to_one [of "arena nearA bigB []" "''L''" "arenaLobby nearA bigB []"
        1 "[nearA, bigB]" 0 bigB nearA "''c1''" "arenaClient ''c1'' ''pA''"]
    unfolding m
    by (simp add: bigB_def nearA_def arena_defs)
  have w3: "map_of (rosterOf (checkPlayerCollisions arenaClosed ''L'') ''L'') ''pB'' = None
   \<and> map_option c_playerId (map_of (clients (checkPlayerCollisions arenaClosed ''L'')) ''c2'')
       = Some None"
    using t1 absorption_two_to_one [of arenaClosed "''L''" "arenaLobby bigA nearB []"
        0 "[bigA, nearB]" 1 bigA nearB "''c2''" "(arenaClient ''c2'' ''pB'')\<lparr>c_open := False\<rparr>"]
    unfolding m
    by (simp add: arenaClosed_def bigA_def nearB_def arena_defs)
  show ?thesis using w1 w2 w3 by simp
qed

text \<open>
  The claim C3 as it is written fails in two ways. When the socket of the smaller player's
  connection is not open, no \<open>you_were_eliminated\<close> is sent. When no connection refers to
  the smaller player any more (its connection has joined again), the larger player still
  grows, but the smaller one stays in the roster and nothing is sent.
\<close>

theorem absorption_counterexample:
  "(''c2'', YouWereEliminated) \<notin> set (outbox (snd (resolvePair ''L'' 0 1 ([bigA, nearB], arenaClosed))))
   \<and> map_of (rosterOf (snd (resolvePair ''L'' 0 1 ([bigA, nearB], arenaRejoined))) ''L'') ''pB''
        = Some nearB
   \<and> outbox (snd (resolvePair ''L'' 0 1 ([bigA, nearB], arenaRejoined))) = []"
  by (simp add: resolvePair_def writeObj_def absorbInto_def absorbPlayer_def endGame_def Let_def
      arenaClosed_def arenaRejoined_def bigA_def nearB_def arena_defs absorptionThreshold_def
      updPlayer_def updLobby_def broadcastToLobby_def recipients_def isOpen_def sendToClient_def
      rosterOf_def firstId_def setTimer_def clearTimer_def)

theorem absorbed_connection_messages_witness:
  "filter (\<lambda>cm. fst cm = ''c2'')
     (sentSince (arena bigA nearB []) (absorbPlayer (arena bigA nearB []) ''L'' ''pA'' ''pB''))
   = [(''c2'', YouWereEliminated)]"
  using absorbed_connection_messages [of "arena bigA nearB []" "''L''" "arenaLobby bigA nearB []"
      "''pB''" "''c2''" "arenaClient ''c2'' ''pB''" "''pA''"]
  by (simp add: bigA_def nearB_def arena_defs isOpen_def)

text \<open>
  The claim C10 as it is written fails. A connection may join the same lobby twice (the
  first conjunct runs the handlers); it then owns two players of the roster. When the player
  it currently refers to is absorbed, the \<open>player_eaten\<close> broadcast reaches it through its
  other player.
\<close>

theorem absorbed_connection_counterexample:
  "ownersOf (run joinTwice) ''L'' = [''c1'', ''c2'', ''c1'']
   \<and> ownersOf sharedArena ''L'' = [''c1'', ''c2'', ''c1'']
   \<and> (''c1'', PlayerEaten ''pC'' (Some ''pB''))
        \<in> set (sentSince sharedArena (absorbPlayer sharedArena ''L'' ''pB'' ''pC''))"
proof -
  have "ownersOf (run joinTwice) ''L'' = [''c1'', ''c2'', ''c1'']"
    by (simp add: run_def joinTwice_def initial_def connection_def handleClientMessage_def
      createLobby_def detachLobby_def sendToClient_def isOpen_def handleJoinLobby_def DEFAULT_LOBBY_def
      maxPlayers_def updLobby_def newPlayer_def playerColors_def broadcastLobbyUpdate_def
      broadcastToLobby_def recipients_def ownersOf_def rosterOf_def Let_def)
  moreover have "ownersOf sharedArena ''L'' = [''c1'', ''c2'', ''c1'']"
    by (simp add: ownersOf_def rosterOf_def sharedArena_def playerC_def arena_defs)
  moreover have "(''c1'', PlayerEaten ''pC'' (Some ''pB''))
        \<in> set (sentSince sharedArena (absorbPlayer sharedArena ''L'' ''pB'' ''pC''))"
    by (simp add: sentSince_def absorbPlayer_def sharedArena_def playerC_def arena_defs Let_def
        updLobby_def broadcastToLobby_def recipients_def isOpen_def sendToClient_def)
  ultimately show ?thesis by simp
qed

subsection \<open>The stored input vector\<close>

text \<open>
  C7, as the code has it. A player's stored input vector is the zero vector right after the
  join that creates the player, after \<open>request_lobby\<close> has reset the lobby and after the
  game start has placed the players. An accepted \<open>player_input\<close> (the lobby is in play and
  the connection owns a player of its roster) changes the stored vector of that player
  only: to the zero vector when the computed length of the input is not greater than zero,
  as for the input \<open>(0, 0)\<close>, and otherwise to the two components divided by the computed
  length, as the floating-point operations deliver them.
\<close>

theorem stored_input_vector:
  "(\<forall>l. map_of (lobbies s) lobbyId = Some l \<and> l_gameState l = Lobby
         \<and> length (l_players l) < maxPlayers \<and> u \<notin> fst ` set (l_players l) \<longrightarrow>
        inputsOf (handleJoinLobby s c lobbyId n u) lobbyId = inputsOf s lobbyId @ [(0, 0)])
   \<and> (\<forall>cl l. map_of (clients s) c = Some cl \<and> c_lobbyId cl = Some lobbyId
         \<and> map_of (lobbies s) lobbyId = Some l \<longrightarrow>
        inputsOf (handleRequestLobby s c) lobbyId = replicate (length (l_players l)) (0, 0))
   \<and> (\<forall>l. map_of (lobbies s) lobbyId = Some l \<longrightarrow>
        inputsOf (startGame s lobbyId rnd) lobbyId = replicate (length (l_players l)) (0, 0))
   \<and> (\<forall>l cl playerId p. map_of (lobbies s) lobbyId = Some l \<and> l_gameState l = Playing
         \<and> map_of (clients s) c = Some cl \<and> c_playerId cl = Some playerId
         \<and> map_of (l_players l) playerId = Some p \<longrightarrow>
        rosterOf (handlePlayerInput s c lobbyId inp fp) lobbyId
          = AList.map_entry playerId
              (\<lambda>p. p\<lparr>p_input :=
                 if 0 < computedLength fp inp
                 then (f_div fp (fst inp) (computedLength fp inp),
                       f_div fp (snd inp) (computedLength fp inp))
                 else (0, 0)\<rparr>) (l_players l))
   \<and> \<not> 0 < computedLength exactArith (0, 0)"
proof (intro conjI allI impI)
  fix l
  assume a: "map_of (lobbies s) lobbyId = Some l \<and> l_gameState l = Lobby
         \<and> length (l_players l) < maxPlayers \<and> u \<notin> fst ` set (l_players l)"
  then have "rosterOf (handleJoinLobby s c lobbyId n u) lobbyId
               = l_players l @ [(u, newPlayer u c n (length (l_players l)))]"
    by (simp add: rosterOf_join update_fresh_append)
  then show "inputsOf (handleJoinLobby s c lobbyId n u) lobbyId = inputsOf s lobbyId @ [(0, 0)]"
    using a by (simp add: inputsOf_def rosterOf_def newPlayer_def)
next
  fix cl l
  assume a: "map_of (clients s) c = Some cl \<and> c_lobbyId cl = Some lobbyId
         \<and> map_of (lobbies s) lobbyId = Some l"
  then have "rosterOf (handleRequestLobby s c) lobbyId
               = map (\<lambda>kp. (fst kp, resetPlayer (snd kp))) (l_players l)"
    by (simp add: handleRequestLobby_def rosterOf_def Let_def updLobby_def map_of_map_entry
        split: option.splits)
  then show "inputsOf (handleRequestLobby s c) lobbyId = replicate (length (l_players l)) (0, 0)"
    by (simp add: inputsOf_def resetPlayer_def comp_def map_replicate_const)
next
  fix l
  assume a: "map_of (lobbies s) lobbyId = Some l"
  let ?n = "length (l_players l)"
  have "rosterOf (startGame s lobbyId rnd) lobbyId
          = map (\<lambda>(index, kp).
                   (fst kp, (snd kp)\<lparr>p_x := cos (2 * pi / real ?n * real index) * (min mapWidth mapHeight / 3),
                                      p_y := sin (2 * pi / real ?n * real index) * (min mapWidth mapHeight / 3),
                                      p_size := playerStartSize,
                                      p_input := (0, 0)\<rparr>))
                (zip [0..<?n] (l_players l))"
    using a
    by (simp add: startGame_def rosterOf_def Let_def initializeGamePositions_def generateFood_def
        startGameTick_def updLobby_def map_of_map_entry)
  then have "inputsOf (startGame s lobbyId rnd) lobbyId
               = map (\<lambda>x. (0, 0)) (zip [0..<?n] (l_players l))"
    by (simp add: inputsOf_def comp_def case_prod_beta)
  then show "inputsOf (startGame s lobbyId rnd) lobbyId = replicate ?n (0, 0)"
    by (simp add: map_replicate_const)
next
  fix l cl playerId p
  assume "map_of (lobbies s) lobbyId = Some l \<and> l_gameState l = Playing
         \<and> map_of (clients s) c = Some cl \<and> c_playerId cl = Some playerId
         \<and> map_of (l_players l) playerId = Some p"
  then show "rosterOf (handlePlayerInput s c lobbyId inp fp) lobbyId
          = AList.map_entry playerId
              (\<lambda>p. p\<lparr>p_input :=
                 if 0 < computedLength fp inp
                 then (f_div fp (fst inp) (computedLength fp inp),
                       f_div fp (snd inp) (computedLength fp inp))
                 else (0, 0)\<rparr>) (l_players l)"
    by (simp add: handlePlayerInput_def rosterOf_def updPlayer_def updLobby_def map_of_map_entry
        normalizeInput_def Let_def)
next
  show "\<not> 0 < computedLength exactArith (0, 0)"
    by (simp add: computedLength_def exactArith_def)
qed

theorem stored_input_vector_witness:
  "map_of (lobbies (createLobby (connection initial ''c1'') ''L'')) ''L'' = Some DEFAULT_LOBBY
   \<and> l_gameState DEFAULT_LOBBY = Lobby
   \<and> length (l_players DEFAULT_LOBBY) < maxPlayers
   \<and> ''p1'' \<notin> fst ` set (l_players DEFAULT_LOBBY)
   \<and> inputsOf (handleJoinLobby (createLobby (connection initial ''c1'') ''L'')
                 ''c1'' ''L'' ''ann'' ''p1'') ''L'' = [(0, 0)]
   \<and> map_of (clients (arena movingA playerB [])) ''c1'' = Some (arenaClient ''c1'' ''pA'')
   \<and> c_lobbyId (arenaClient ''c1'' ''pA'') = Some ''L''
   \<and> c_playerId (arenaClient ''c1'' ''pA'') = Some ''pA''
   \<and> map_of (lobbies (arena movingA playerB [])) ''L'' = Some (arenaLobby movingA playerB [])
   \<and> l_gameState (arenaLobby movingA playerB []) = Playing
   \<and> map_of (l_players (arenaLobby movingA playerB [])) ''pA'' = Some movingA
   \<and> inputsOf (arena movingA playerB []) ''L'' = [(1, 0), (0, 0)]
   \<and> inputsOf (handleRequestLobby (arena movingA playerB []) ''c1'') ''L'' = [(0, 0), (0, 0)]
   \<and> inputsOf (startGame (arena movingA playerB []) ''L'' (randomAt 0)) ''L'' = [(0, 0), (0, 0)]
   \<and> inputsOf (handlePlayerInput (arena movingA playerB []) ''c1'' ''L'' (3, 4) exactArith) ''L''
       = [(3 / 5, 4 / 5), (0, 0)]
   \<and> inputsOf (handlePlayerInput (arena movingA playerB []) ''c1'' ''L'' (0, 0) exactArith) ''L''
       = [(0, 0), (0, 0)]"
proof -
  let ?s = "arena movingA playerB []"
  let ?l = "arenaLobby movingA playerB []"
  let ?j = "createLobby (connection initial ''c1'') ''L''"
  have r: "sqrt 25 = 5" using real_sqrt_abs2 [of 5] by simp
  have c34: "computedLength exactArith (3, 4) = 5"
    by (simp add: computedLength_def exactArith_def r)
  have c00: "computedLength exactArith (0, 0) = 0"
    by (simp add: computedLength_def exactArith_def)
  have j1: "map_of (lobbies ?j) ''L'' = Some DEFAULT_LOBBY"
    by (simp add: createLobby_def Let_def update_conv')
  have j2: "l_gameState DEFAULT_LOBBY = Lobby" "length (l_players DEFAULT_LOBBY) < maxPlayers"
    "''p1'' \<notin> fst ` set (l_players DEFAULT_LOBBY)"
    by (simp_all add: DEFAULT_LOBBY_def maxPlayers_def)
  have j3: "inputsOf ?j ''L'' = []"
    by (simp add: inputsOf_def rosterOf_def j1) (simp add: DEFAULT_LOBBY_def)
  have a1: "map_of (clients ?s) ''c1'' = Some (arenaClient ''c1'' ''pA'')"
    by (simp add: arena_def)
  have a2: "c_lobbyId (arenaClient ''c1'' ''pA'') = Some ''L''"
    "c_playerId (arenaClient ''c1'' ''pA'') = Some ''pA''"
    by (simp_all add: arenaClient_def)
  have a3: "map_of (lobbies ?s) ''L'' = Some ?l" by (simp add: arena_def)
  have a4: "l_gameState ?l = Playing" "map_of (l_players ?l) ''pA'' = Some movingA"
    "l_players ?l = [(''pA'', movingA), (''pB'', playerB)]"
    by (simp_all add: arenaLobby_def)
  have a5: "inputsOf ?s ''L'' = [(1, 0), (0, 0)]"
    unfolding inputsOf_def rosterOf_def a3 option.case a4(3)
    by (simp add: movingA_def playerB_def newPlayer_def)
  have inp: "inputsOf (handlePlayerInput ?s ''c1'' ''L'' v exactArith) ''L''
               = [if 0 < computedLength exactArith v
                  then (f_div exactArith (fst v) (computedLength exactArith v),
                        f_div exactArith (snd v) (computedLength exactArith v))
                  else (0, 0), (0, 0)]" for v
    using stored_input_vector [of ?s "''L''" "''p1''" "''c1''" "''ann''" "randomAt 0" v exactArith]
      a1 a2 a3 a4
    by (simp add: inputsOf_def playerB_def newPlayer_def)
  show ?thesis
    using stored_input_vector [of ?j "''L''" "''p1''" "''c1''" "''ann''" "randomAt 0" "(0, 0)" exactArith]
      stored_input_vector [of ?s "''L''" "''p1''" "''c1''" "''ann''" "randomAt 0" "(0, 0)" exactArith]
      j1 j2 j3 a1 a2 a3 a4 a5 inp [of "(3, 4)"] inp [of "(0, 0)"] c34 c00
    by (simp add: exactArith_def numeral_2_eq_2)
qed

text \<open>
  The claim C7 as it is written fails in two ways. A player at \<open>x = 19\<close> sends the input
  \<open>(1, 0)\<close>, for which floating-point and exact arithmetic agree; the next tick moves it
  into the boundary band of the map, where the stored input is multiplied by \<open>-0.8\<close>: the
  stored vector is \<open>(-0.8, 0)\<close>, neither zero nor of length one. And for the input \<open>(1, 1)\<close>
  the handler itself stores, in IEEE arithmetic, twice the double \<open>0.7071067811865475\<close>, a
  vector whose Euclidean length is not one.
\<close>

theorem stored_input_counterexample:
  "inputsOf (updateGameState
      (handlePlayerInput (arena (playerA\<lparr>p_x := 19\<rparr>) (playerB\<lparr>p_x := - 5\<rparr>) []) ''c1'' ''L'' (1, 0)
         exactArith)
      ''L'' (1 / 60) (clockAt 1000) (randomAt 0)) ''L'' = [(- (4 / 5), 0), (0, 0)]
   \<and> \<not> unitOrZero (- (4 / 5), 0)
   \<and> inputsOf (handlePlayerInput (arena playerA playerB []) ''c1'' ''L'' (1, 1) roundedArith) ''L''
       = [(1592262918131443 / 2251799813685248, 1592262918131443 / 2251799813685248), (0, 0)]
   \<and> \<not> unitOrZero (1592262918131443 / 2251799813685248, 1592262918131443 / 2251799813685248)"
proof -
  have "handlePlayerInput (arena (playerA\<lparr>p_x := 19\<rparr>) (playerB\<lparr>p_x := - 5\<rparr>) []) ''c1'' ''L'' (1, 0)
          exactArith
          = arena (playerA\<lparr>p_x := 19, p_input := (1, 0)\<rparr>) (playerB\<lparr>p_x := - 5\<rparr>) []"
    by (simp add: handlePlayerInput_def arena_def arenaLobby_def arenaClient_def updPlayer_def
        updLobby_def normalizeInput_def computedLength_def exactArith_def playerA_def playerB_def
        newPlayer_def)
  moreover have "inputsOf (updateGameState
        (arena (playerA\<lparr>p_x := 19, p_input := (1, 0)\<rparr>) (playerB\<lparr>p_x := - 5\<rparr>) [])
        ''L'' (1 / 60) (clockAt 1000) (randomAt 0)) ''L'' = [(- (4 / 5), 0), (0, 0)]"
    by (simp add: updateGameState_def arena_def arenaLobby_def arenaClient_def playerA_def
        playerB_def newPlayer_def minPlayersToStart_def updLobby_def Let_def movePlayer_def bounceX_def bounceY_def
        mapWidth_def mapHeight_def playerStartSize_def forceMagnitude_def
        checkFoodCollisions_def checkFoodPlayer_def foodCountOf_def checkPlayerCollisions_def
        collideFrom_def resolvePair_def sqrt_less_iff_sq reapStep_def rosterOf_def inputsOf_def
        clockAt_def upt_rec [of _ "numeral _"] upt_rec [of _ "Suc _"] playerColors_def)
  moreover have "\<not> unitOrZero (- (4 / 5), 0)"
    by (simp add: unitOrZero_def vecLength_def)
  moreover have "inputsOf (handlePlayerInput (arena playerA playerB []) ''c1'' ''L'' (1, 1) roundedArith) ''L''
       = [(1592262918131443 / 2251799813685248, 1592262918131443 / 2251799813685248), (0, 0)]"
    by (simp add: handlePlayerInput_def arena_def arenaLobby_def arenaClient_def updPlayer_def
        updLobby_def normalizeInput_def computedLength_def roundedArith_def exactArith_def
        playerA_def playerB_def newPlayer_def inputsOf_def rosterOf_def)
  moreover have "\<not> unitOrZero (1592262918131443 / 2251799813685248, 1592262918131443 / 2251799813685248)"
    by (simp add: unitOrZero_def vecLength_def)
  ultimately show ?thesis by simp
qed

subsection \<open>One tick on example states\<close>

lemmas tick_defs = gameTick_def updateGameState_def broadcastGameState_def minPlayersToStart_def
  updLobby_def updPlayer_def Let_def movePlayer_def bounceX_def bounceY_def mapWidth_def mapHeight_def
  forceMagnitude_def checkFoodCollisions_def checkFoodPlayer_def foodCountOf_def
  checkPlayerCollisions_def collideFrom_def resolvePair_def writeObj_def absorbInto_def
  absorptionThreshold_def absorbPlayer_def endGame_def firstId_def setTimer_def clearTimer_def
  broadcastToLobby_def recipients_def isOpen_def sendToClient_def sqrt_less_iff_sq reapStep_def
  rosterOf_def clockAt_def playerSnapshot_def
  upt_rec [of _ "numeral _"] upt_rec [of _ "Suc _"]

text \<open>
  C1 does not hold of the code. In a lobby in play, a player of size 2 touches a player of
  size 1. During one tick \<open>absorbPlayer\<close> removes the smaller player and calls \<open>endGame\<close>;
  \<open>endGame\<close> leaves \<open>gameState\<close> at \<open>playing\<close>, so the check at the end of
  \<open>updateGameState\<close> calls \<open>endGame\<close> again. The survivor receives \<open>game_over\<close> (with its id
  and size 2.5) twice and two teardown timeouts of 3000 ms are pending. When the first
  fires, the lobby is removed from the registry.
\<close>

theorem game_over_sent_twice:
  "outbox (gameTick (arena bigA nearB []) ''L'' (1 / 60) (clockAt 1000) (randomAt 0))
     = [(''c1'', PlayerEaten ''pB'' (Some ''pA'')),
        (''c2'', YouWereEliminated),
        (''c1'', GameOver (Some ''pA'') (5 / 2)),
        (''c1'', GameOver (Some ''pA'') (5 / 2)),
        (''c1'', GameUpdate [(''pA'', 0, 0, 5 / 2)])]
   \<and> timers (gameTick (arena bigA nearB []) ''L'' (1 / 60) (clockAt 1000) (randomAt 0))
     = [(2, EndGameTimeout 3000 ''L''), (3, EndGameTimeout 3000 ''L'')]
   \<and> lobbies (fireTimer (gameTick (arena bigA nearB []) ''L'' (1 / 60) (clockAt 1000) (randomAt 0))
                2 (1 / 60) (clockAt 4000) (randomAt 0)) = []"
  by (simp add: tick_defs arena_defs bigA_def nearB_def fireTimer_def endGameTimeout_def
      teardown_def detachLobby_def detachTimer_def closePlayer_def)

text \<open>
  C2 does not hold of the code. Both players enter the tick with a last-activity timestamp
  of 0 while the clock reads 10000, more than the timeout of 5000 later. The movement loop
  overwrites the timestamp of every player with the current time before the inactivity
  loop compares it, so nobody is removed and no \<open>player_disconnected\<close> is sent.
\<close>

theorem idle_player_not_reaped:
  "p_lastUpdate staleA = Some 0 \<and> p_lastUpdate staleB = Some 0
   \<and> map fst (rosterOf (updateGameState (arena staleA staleB []) ''L'' (1 / 60) (clockAt 10000) (randomAt 0)) ''L'')
       = [''pA'', ''pB'']
   \<and> outbox (updateGameState (arena staleA staleB []) ''L'' (1 / 60) (clockAt 10000) (randomAt 0)) = []"
  by (simp add: tick_defs arena_defs staleA_def staleB_def)


subsection \<open>Food pickup and respawn\<close>

lemma recipients_eqI:
  "clients s' = clients s \<Longrightarrow> l_players l' = l_players l \<Longrightarrow> recipients s' l' = recipients s l"
  by (simp add: recipients_def isOpen_def [abs_def])

lemma respawn_fold:
  assumes l: "map_of (lobbies s) lid = Some l"
  shows "snd (fold (\<lambda>j. respawnOne lid rnd food by) [0..<n] (s, r)) = r + 2 * n
     \<and> map_of (lobbies (fst (fold (\<lambda>j. respawnOne lid rnd food by) [0..<n] (s, r)))) lid
         = Some (l\<lparr>l_foodItems := l_foodItems l @ respawnBatch rnd r n\<rparr>)
     \<and> clients (fst (fold (\<lambda>j. respawnOne lid rnd food by) [0..<n] (s, r))) = clients s
     \<and> outbox (fst (fold (\<lambda>j. respawnOne lid rnd food by) [0..<n] (s, r)))
         = outbox s @ concat (map (\<lambda>nf. toRoster s l (FoodEaten (fst food) (snd food) by (Some nf)))
                               (respawnBatch rnd r n))"
proof (induction n)
  case 0
  show ?case using l by (simp add: respawnBatch_def)
next
  case (Suc n)
  define st where "st = fold (\<lambda>j. respawnOne lid rnd food by) [0..<n] (s, r)"
  define nf where "nf = randomFood rnd (r + 2 * n)"
  let ?l = "l\<lparr>l_foodItems := l_foodItems l @ respawnBatch rnd r n\<rparr>"
  have step: "fold (\<lambda>j. respawnOne lid rnd food by) [0..<Suc n] (s, r) = respawnOne lid rnd food by st"
    by (simp add: st_def)
  have r: "snd st = r + 2 * n" and lk: "map_of (lobbies (fst st)) lid = Some ?l"
    and c: "clients (fst st) = clients s"
    and ob: "outbox (fst st)
         = outbox s @ concat (map (\<lambda>nf. toRoster s l (FoodEaten (fst food) (snd food) by (Some nf)))
                               (respawnBatch rnd r n))"
    using Suc.IH unfolding st_def by blast+
  have b: "respawnBatch rnd r (Suc n) = respawnBatch rnd r n @ [nf]"
    by (simp add: respawnBatch_def nf_def)
  have rc: "recipients (updLobby lid (\<lambda>l. l\<lparr>l_foodItems := l_foodItems l @ [nf]\<rparr>) (fst st))
              (?l\<lparr>l_foodItems := l_foodItems ?l @ [nf]\<rparr>) = recipients s l"
    by (rule recipients_eqI) (simp_all add: c)
  have one: "respawnOne lid rnd food by st
               = (broadcastToLobby (updLobby lid (\<lambda>l. l\<lparr>l_foodItems := l_foodItems l @ [nf]\<rparr>) (fst st))
                    lid (FoodEaten (fst food) (snd food) by (Some nf)), snd st + 2)"
    by (simp add: respawnOne_def Let_def nf_def r)
  show ?case
    unfolding step one b using lk r c rc ob
    by (simp add: outbox_broadcastToLobby toRoster_def)
qed

lemma clients_updPlayer [simp]: "clients (updPlayer lid k f s) = clients s"
  by (simp add: updPlayer_def)
lemma outbox_updPlayer [simp]: "outbox (updPlayer lid k f s) = outbox s"
  by (simp add: updPlayer_def)
lemma timers_updPlayer [simp]: "timers (updPlayer lid k f s) = timers s"
  by (simp add: updPlayer_def)
lemma nextTimer_updPlayer [simp]: "nextTimer (updPlayer lid k f s) = nextTimer s"
  by (simp add: updPlayer_def)

lemma lobby_updPlayer [simp]:
  "map_of (lobbies (updPlayer lid k f s)) lid'
     = (if lid' = lid
        then map_option (\<lambda>l. l\<lparr>l_players := AList.map_entry k f (l_players l)\<rparr>) (map_of (lobbies s) lid)
        else map_of (lobbies s) lid')"
  by (simp add: updPlayer_def)

lemma map_snd_map_entry:
  assumes "\<And>v. g (f v) = g v"
  shows "map (g \<circ> snd) (AList.map_entry k f xs) = map (g \<circ> snd) xs"
  using assms by (induction xs) auto

lemma recipients_map_entry:
  assumes "\<And>v. p_clientId (f v) = p_clientId v"
  shows "recipients s (l\<lparr>l_players := AList.map_entry k f (l_players l)\<rparr>) = recipients s l"
  using map_snd_map_entry [of p_clientId f k "l_players l", OF assms]
  by (simp add: recipients_def comp_def)

lemma onMap_randomFood:
  assumes "\<forall>k. 0 \<le> rnd k \<and> rnd k < 1"
  shows "onMap (randomFood rnd k)"
proof -
  have "0 \<le> rnd k" "rnd k < 1" "0 \<le> rnd (Suc k)" "rnd (Suc k) < 1" using assms by auto
  then show ?thesis by (simp add: onMap_def randomFood_def mapWidth_def mapHeight_def)
qed

lemma onMap_respawnBatch:
  assumes "\<forall>k. 0 \<le> rnd k \<and> rnd k < 1"
  shows "list_all onMap (respawnBatch rnd r n)"
  using onMap_randomFood [OF assms] by (simp add: respawnBatch_def list_all_iff)

lemma foodCount_foodStep:
  assumes i: "i < foodCountOf (fst st) lid"
  shows "i \<le> foodCountOf (fst (foodStep lid rnd key i st)) lid"
proof -
  obtain l where l: "map_of (lobbies (fst st)) lid = Some l" and il: "i < length (l_foodItems l)"
    using i by (auto simp add: foodCountOf_def split: option.splits)
  show ?thesis
  proof (cases "map_of (l_players l) key")
    case None
    then show ?thesis using l il i by (simp add: foodStep_def)
  next
    case (Some p)
    let ?food = "l_foodItems l ! i"
    let ?grow = "\<lambda>p::player. p\<lparr>p_size := p_size p + growthRate\<rparr>"
    let ?s3 = "updLobby lid (\<lambda>l. l\<lparr>l_foodItems := take i (l_foodItems l) @ drop (Suc i) (l_foodItems l)\<rparr>)
                 (broadcastToLobby (updPlayer lid key ?grow (fst st)) lid
                    (FoodEaten (fst ?food) (snd ?food) (p_id p) None))"
    let ?l3 = "l\<lparr>l_players := AList.map_entry key ?grow (l_players l),
                 l_foodItems := take i (l_foodItems l) @ drop (Suc i) (l_foodItems l)\<rparr>"
    have l3: "map_of (lobbies ?s3) lid = Some ?l3" using l by simp
    have c3: "i \<le> foodCountOf ?s3 lid"
      unfolding foodCountOf_def l3 using il by simp
    have c4: "i \<le> foodCountOf (fst (fold (\<lambda>j. respawnOne lid rnd ?food (p_id p))
                                        [0..<respawnAmount] (?s3, snd st))) lid"
      using respawn_fold [OF l3, of rnd ?food "p_id p" respawnAmount "snd st"] il
      by (simp add: foodCountOf_def)
    have "fst (foodStep lid rnd key i st) = fst st
          \<or> fst (foodStep lid rnd key i st) = ?s3
          \<or> fst (foodStep lid rnd key i st)
               = fst (fold (\<lambda>j. respawnOne lid rnd ?food (p_id p)) [0..<respawnAmount] (?s3, snd st))"
      using l Some by (simp add: foodStep_def Let_def)
    then show ?thesis using c3 c4 i by (elim disjE) simp_all
  qed
qed

lemma food_indices_in_range:
  "n \<le> foodCountOf (fst st) lid \<Longrightarrow> foodIndicesInRange lid rnd key (rev [0..<n]) st"
proof (induction n arbitrary: st)
  case 0
  show ?case by simp
next
  case (Suc n)
  have "n < foodCountOf (fst st) lid" using Suc.prems by simp
  moreover from this have "n \<le> foodCountOf (fst (foodStep lid rnd key n st)) lid"
    by (rule foodCount_foodStep)
  ultimately show ?case using Suc.IH by simp
qed

lemma checkFoodPlayer_in_range:
  "foodIndicesInRange lid rnd key (rev [0..<foodCountOf (fst st) lid]) st"
  by (rule food_indices_in_range) simp

lemma touchesFood_fields [simp]:
  "touchesFood (p\<lparr>p_lastUpdate := t\<rparr>) f = touchesFood p f"
  "touchesFood (p\<lparr>p_input := v\<rparr>) f = touchesFood p f"
  by (simp_all add: touchesFood_def)

lemma foodStep_touch:
  assumes l: "map_of (lobbies s) lobbyId = Some l"
    and p: "map_of (l_players l) key = Some p"
    and i: "i < length (l_foodItems l)"
    and t: "touchesFood p (l_foodItems l ! i)"
  shows "map_of (lobbies (fst (foodStep lobbyId rnd key i (s, r)))) lobbyId
           = Some (l\<lparr>l_players := AList.map_entry key (\<lambda>p. p\<lparr>p_size := p_size p + growthRate\<rparr>) (l_players l),
                     l_foodItems := take i (l_foodItems l) @ drop (Suc i) (l_foodItems l)
                        @ respawnAfter rnd r (take i (l_foodItems l) @ drop (Suc i) (l_foodItems l))\<rparr>)"
    and "clients (fst (foodStep lobbyId rnd key i (s, r))) = clients s"
    and "outbox (fst (foodStep lobbyId rnd key i (s, r)))
              = outbox s
                @ toRoster s l (FoodEaten (fst (l_foodItems l ! i)) (snd (l_foodItems l ! i)) (p_id p) None)
                @ concat (map (\<lambda>nf. toRoster s l
                                 (FoodEaten (fst (l_foodItems l ! i)) (snd (l_foodItems l ! i))
                                    (p_id p) (Some nf)))
                           (respawnAfter rnd r (take i (l_foodItems l) @ drop (Suc i) (l_foodItems l))))"
    and "snd (foodStep lobbyId rnd key i (s, r))
           = r + 2 * length (respawnAfter rnd r (take i (l_foodItems l) @ drop (Suc i) (l_foodItems l)))"
proof -
  let ?food = "l_foodItems l ! i"
  let ?rest = "take i (l_foodItems l) @ drop (Suc i) (l_foodItems l)"
  let ?grow = "\<lambda>p::player. p\<lparr>p_size := p_size p + growthRate\<rparr>"
  let ?msg = "FoodEaten (fst ?food) (snd ?food) (p_id p) None"
  let ?s3 = "updLobby lobbyId (\<lambda>l. l\<lparr>l_foodItems := take i (l_foodItems l) @ drop (Suc i) (l_foodItems l)\<rparr>)
               (broadcastToLobby (updPlayer lobbyId key ?grow s) lobbyId ?msg)"
  let ?l3 = "l\<lparr>l_players := AList.map_entry key ?grow (l_players l), l_foodItems := ?rest\<rparr>"
  have l3: "map_of (lobbies ?s3) lobbyId = Some ?l3"
    using l by (simp add: updPlayer_def)
  have c3: "clients ?s3 = clients s" by (simp add: updPlayer_def)
  have rc1: "recipients (updPlayer lobbyId key ?grow s) (l\<lparr>l_players := AList.map_entry key ?grow (l_players l)\<rparr>)
               = recipients s l"
  proof -
    have "recipients (updPlayer lobbyId key ?grow s) (l\<lparr>l_players := AList.map_entry key ?grow (l_players l)\<rparr>)
            = recipients s (l\<lparr>l_players := AList.map_entry key ?grow (l_players l)\<rparr>)"
      by (rule recipients_clients) (simp add: updPlayer_def)
    also have "\<dots> = recipients s l" by (rule recipients_map_entry) simp
    finally show ?thesis .
  qed
  have rc3: "recipients ?s3 ?l3 = recipients s l"
  proof -
    have "recipients ?s3 ?l3 = recipients s (l\<lparr>l_players := AList.map_entry key ?grow (l_players l)\<rparr>)"
      by (rule recipients_eqI) (simp_all add: c3)
    also have "\<dots> = recipients s l" by (rule recipients_map_entry) simp
    finally show ?thesis .
  qed
  have o3: "outbox ?s3 = outbox s @ toRoster s l ?msg"
    using l rc1 by (simp add: outbox_broadcastToLobby updPlayer_def toRoster_def)
  have fc: "foodCountOf ?s3 lobbyId = length ?rest"
    unfolding foodCountOf_def l3 by simp
  have fs0: "foodStep lobbyId rnd key i (s, r)
              = (if real (foodCountOf ?s3 lobbyId) < real foodCount * respawnThreshold
                 then fold (\<lambda>j. respawnOne lobbyId rnd ?food (p_id p)) [0..<respawnAmount] (?s3, r)
                 else (?s3, r))"
    using l p i t
    by (simp add: foodStep_def touchesFood_def Let_def)
  have fs: "foodStep lobbyId rnd key i (s, r)
              = (if real (length ?rest) < real foodCount * respawnThreshold
                 then fold (\<lambda>j. respawnOne lobbyId rnd ?food (p_id p)) [0..<respawnAmount] (?s3, r)
                 else (?s3, r))"
    unfolding fs0 fc ..
  note rf = respawn_fold [OF l3, of rnd ?food "p_id p" respawnAmount r]
  have tr: "\<And>m. toRoster ?s3 ?l3 m = toRoster s l m" unfolding toRoster_def rc3 ..
  show "map_of (lobbies (fst (foodStep lobbyId rnd key i (s, r)))) lobbyId
           = Some (l\<lparr>l_players := AList.map_entry key (\<lambda>p. p\<lparr>p_size := p_size p + growthRate\<rparr>) (l_players l),
                     l_foodItems := take i (l_foodItems l) @ drop (Suc i) (l_foodItems l)
                        @ respawnAfter rnd r (take i (l_foodItems l) @ drop (Suc i) (l_foodItems l))\<rparr>)"
    using rf l3 by (simp add: fs respawnAfter_def)
  show "clients (fst (foodStep lobbyId rnd key i (s, r))) = clients s"
    using rf c3 by (simp add: fs)
  show "outbox (fst (foodStep lobbyId rnd key i (s, r)))
              = outbox s
                @ toRoster s l (FoodEaten (fst (l_foodItems l ! i)) (snd (l_foodItems l ! i)) (p_id p) None)
                @ concat (map (\<lambda>nf. toRoster s l
                                 (FoodEaten (fst (l_foodItems l ! i)) (snd (l_foodItems l ! i))
                                    (p_id p) (Some nf)))
                           (respawnAfter rnd r (take i (l_foodItems l) @ drop (Suc i) (l_foodItems l))))"
    using rf o3 by (simp add: fs respawnAfter_def tr)
  show "snd (foodStep lobbyId rnd key i (s, r)) = r + 2 * length (respawnAfter rnd r ?rest)"
    using rf by (simp add: fs respawnAfter_def respawnBatch_def)
qed

lemma foodStep_no_touch:
  assumes "map_of (lobbies (fst st)) lobbyId = Some l"
    and "map_of (l_players l) key = Some p"
    and "i < length (l_foodItems l) \<Longrightarrow> \<not> touchesFood p (l_foodItems l ! i)"
  shows "foodStep lobbyId rnd key i st = st"
  using assms by (simp add: foodStep_def touchesFood_def Let_def)

lemma fold_fixed: "(\<And>x. x \<in> set xs \<Longrightarrow> f x st = st) \<Longrightarrow> fold f xs st = st"
  by (induction xs) simp_all

lemma checkFoodPlayer_no_touch:
  assumes l: "map_of (lobbies (fst st)) lobbyId = Some l"
    and p: "map_of (l_players l) key = Some p"
    and n: "\<And>f. f \<in> set (l_foodItems l) \<Longrightarrow> \<not> touchesFood p f"
  shows "checkFoodPlayer lobbyId rnd key st = st"
  unfolding checkFoodPlayer_def
proof (rule fold_fixed)
  fix x assume "x \<in> set (rev [0..<foodCountOf (fst st) lobbyId])"
  show "foodStep lobbyId rnd key x st = st"
    by (rule foodStep_no_touch [OF l p]) (simp add: n)
qed

lemma onMap_iff:
  "onMap f \<longleftrightarrow> (\<exists>u v. 0 \<le> u \<and> u < 1 \<and> 0 \<le> v \<and> v < 1
                       \<and> f = ((u * 2 - 1) * mapWidth, (v * 2 - 1) * mapHeight))"
proof
  assume o: "onMap f"
  let ?u = "(fst f / mapWidth + 1) / 2" and ?v = "(snd f / mapHeight + 1) / 2"
  have "0 \<le> ?u" "?u < 1" "0 \<le> ?v" "?v < 1"
    using o by (simp_all add: onMap_def mapWidth_def mapHeight_def)
  moreover have "f = ((?u * 2 - 1) * mapWidth, (?v * 2 - 1) * mapHeight)"
    by (simp add: mapWidth_def mapHeight_def prod_eq_iff add_divide_distrib)
  ultimately show "\<exists>u v. 0 \<le> u \<and> u < 1 \<and> 0 \<le> v \<and> v < 1
                       \<and> f = ((u * 2 - 1) * mapWidth, (v * 2 - 1) * mapHeight)"
    by blast
next
  assume "\<exists>u v. 0 \<le> u \<and> u < 1 \<and> 0 \<le> v \<and> v < 1
                       \<and> f = ((u * 2 - 1) * mapWidth, (v * 2 - 1) * mapHeight)"
  then show "onMap f" by (auto simp add: onMap_def mapWidth_def mapHeight_def)
qed

lemma respawnAfter_explicit:
  "respawnAfter rnd r rest
     = (if real (length rest) < real foodCount * respawnThreshold
        then map (\<lambda>j. ((rnd (r + 2 * j) * 2 - 1) * mapWidth,
                        (rnd (Suc (r + 2 * j)) * 2 - 1) * mapHeight)) [0..<respawnAmount]
        else [])"
  by (simp add: respawnAfter_def respawnBatch_def randomFood_def)

lemma touchesFood_grow:
  "touchesFood p f \<Longrightarrow> touchesFood (p\<lparr>p_size := p_size p + growthRate\<rparr>) f"
  by (simp add: touchesFood_def growthRate_def)

lemma checkFoodCollisions_no_touch:
  assumes l: "map_of (lobbies s) lobbyId = Some l"
    and n: "\<And>key p f. map_of (l_players l) key = Some p \<Longrightarrow> f \<in> set (l_foodItems l)
              \<Longrightarrow> \<not> touchesFood p f"
  shows "checkFoodCollisions s lobbyId rnd = s"
proof -
  have "fold (checkFoodPlayer lobbyId rnd) (map fst (l_players l)) (s, 0) = (s, 0)"
  proof (rule fold_fixed)
    fix key assume "key \<in> set (map fst (l_players l))"
    then obtain p where p: "map_of (l_players l) key = Some p"
      by (metis map_of_eq_None_iff not_Some_eq set_map)
    show "checkFoodPlayer lobbyId rnd key (s, 0) = (s, 0)"
      by (rule checkFoodPlayer_no_touch [where l = l and p = p]) (use l p n in simp_all)
  qed
  then show ?thesis using l by (simp add: checkFoodCollisions_def)
qed

lemma checkFoodCollisions_single:
  assumes l: "map_of (lobbies s) lobbyId = Some l"
    and d: "distinct (map fst (l_players l))"
    and p: "map_of (l_players l) key = Some p"
    and i: "i < length (l_foodItems l)"
    and t: "touchesFood p (l_foodItems l ! i)"
    and oi: "\<And>j. j < length (l_foodItems l) \<Longrightarrow> j \<noteq> i
               \<Longrightarrow> \<not> touchesFood (p\<lparr>p_size := p_size p + growthRate\<rparr>) (l_foodItems l ! j)"
    and oq: "\<And>key' q f. key' \<noteq> key \<Longrightarrow> map_of (l_players l) key' = Some q
               \<Longrightarrow> f \<in> set (l_foodItems l)
                      \<union> set (respawnAfter rnd 0 (take i (l_foodItems l) @ drop (Suc i) (l_foodItems l)))
               \<Longrightarrow> \<not> touchesFood q f"
  shows "checkFoodCollisions s lobbyId rnd = fst (foodStep lobbyId rnd key i (s, 0))"
proof -
  let ?fs = "l_foodItems l"
  let ?rest = "take i ?fs @ drop (Suc i) ?fs"
  let ?resp = "respawnAfter rnd 0 ?rest"
  let ?grow = "\<lambda>p::player. p\<lparr>p_size := p_size p + growthRate\<rparr>"
  let ?st1 = "foodStep lobbyId rnd key i (s, 0)"
  let ?l1 = "l\<lparr>l_players := AList.map_entry key ?grow (l_players l), l_foodItems := ?rest @ ?resp\<rparr>"
  note ft = foodStep_touch [OF l p i t, of rnd 0]
  have l1: "map_of (lobbies (fst ?st1)) lobbyId = Some ?l1" using ft(1) by simp
  have "key \<in> set (map fst (l_players l))"
    using p by (metis map_of_eq_None_iff option.distinct(1) set_map)
  then obtain ks1 ks2 where ks: "map fst (l_players l) = ks1 @ key # ks2"
    by (meson split_list)
  have k1: "key \<notin> set ks1" and k2: "key \<notin> set ks2" using d unfolding ks by auto
  have inl: "k \<in> set (map fst (l_players l))" if "k \<in> set ks1 \<or> k \<in> set ks2" for k
    using that unfolding ks by auto
  have other: "\<exists>q. map_of (l_players l) k = Some q" if "k \<in> set ks1 \<or> k \<in> set ks2" for k
    using inl [OF that] by (metis map_of_eq_None_iff not_Some_eq set_map)
  have a1: "fold (checkFoodPlayer lobbyId rnd) ks1 (s, 0) = (s, 0)"
  proof (rule fold_fixed)
    fix k assume k: "k \<in> set ks1"
    then obtain q where q: "map_of (l_players l) k = Some q" using other by blast
    have ne: "k \<noteq> key" using k k1 by auto
    show "checkFoodPlayer lobbyId rnd k (s, 0) = (s, 0)"
      by (rule checkFoodPlayer_no_touch [where l = l and p = q]) (use l q oq [OF ne q] in simp_all)
  qed
  have up: "rev [0..<length ?fs] = rev [Suc i..<length ?fs] @ i # rev [0..<i]"
  proof -
    have "[0..<length ?fs] = [0..<i] @ i # [Suc i..<length ?fs]"
      using i by (metis le0 upt_conv_Cons upt_add_eq_append le_add_diff_inverse less_imp_le_nat)
    then show ?thesis by simp
  qed
  have b1: "fold (foodStep lobbyId rnd key) (rev [Suc i..<length ?fs]) (s, 0) = (s, 0)"
  proof (rule fold_fixed)
    fix j assume "j \<in> set (rev [Suc i..<length ?fs])"
    then have j: "j < length ?fs" "j \<noteq> i" by auto
    have "\<not> touchesFood p (?fs ! j)" using oi [OF j] touchesFood_grow by blast
    then show "foodStep lobbyId rnd key j (s, 0) = (s, 0)"
      by (intro foodStep_no_touch [where l = l and p = p]) (use l p in simp_all)
  qed
  have p1: "map_of (l_players ?l1) key = Some (?grow p)"
    using p by (simp add: map_of_map_entry_if)
  have b2: "fold (foodStep lobbyId rnd key) (rev [0..<i]) ?st1 = ?st1"
  proof (rule fold_fixed)
    fix j assume "j \<in> set (rev [0..<i])"
    then have j: "j < i" by simp
    then have jj: "j < length ?fs" "j \<noteq> i" using i by simp_all
    have it: "l_foodItems ?l1 ! j = ?fs ! j" using j i by (simp add: nth_append)
    have "\<not> touchesFood (?grow p) (l_foodItems ?l1 ! j)" unfolding it by (rule oi [OF jj])
    then show "foodStep lobbyId rnd key j ?st1 = ?st1"
      by (intro foodStep_no_touch [OF l1 p1]) simp
  qed
  have fc: "foodCountOf s lobbyId = length ?fs" using l by (simp add: foodCountOf_def)
  have a2: "checkFoodPlayer lobbyId rnd key (s, 0) = ?st1"
    unfolding checkFoodPlayer_def by (simp add: fc up b1 b2)
  have a3: "fold (checkFoodPlayer lobbyId rnd) ks2 ?st1 = ?st1"
  proof (rule fold_fixed)
    fix k assume k: "k \<in> set ks2"
    then obtain q where q: "map_of (l_players l) k = Some q" using other by blast
    have ne: "k \<noteq> key" using k k2 by auto
    have q1: "map_of (l_players ?l1) k = Some q" using q ne by (simp add: map_of_map_entry_if)
    have sub: "set ?rest \<subseteq> set ?fs"
      using set_take_subset [of i ?fs] set_drop_subset [of "Suc i" ?fs] by auto
    show "checkFoodPlayer lobbyId rnd k ?st1 = ?st1"
    proof (rule checkFoodPlayer_no_touch [OF l1 q1])
      fix f assume "f \<in> set (l_foodItems ?l1)"
      then have "f \<in> set ?fs \<union> set ?resp" using sub by auto
      then show "\<not> touchesFood q f" by (rule oq [OF ne q])
    qed
  qed
  show ?thesis
    using l by (simp add: checkFoodCollisions_def ks a1 a2 a3)
qed

lemma touchesFood_sq:
  "0 \<le> p_size p \<Longrightarrow>
   touchesFood p f
     = ((p_x p - fst f) * (p_x p - fst f) + (p_y p - snd f) * (p_y p - snd f)
          < (p_size p + foodSize) * (p_size p + foodSize))"
  by (simp add: touchesFood_def sqrt_less_iff_sq foodSize_def)

text \<open>
  C8. \<open>checkFoodCollisions\<close> visits the players in roster order and, for each, the food
  indices from the last to the first (every index is within the food list when it is
  reached), applying \<open>foodStep\<close> to the player stored under the key and the item at the
  index. When the distance between the two is less than the player's size plus
  \<open>foodSize\<close>: that player's size (and nothing else in the roster) grows by \<open>growthRate\<close>;
  the item is removed from the food list; one \<open>food_eaten\<close> with the item's position and
  the player's id is broadcast; and when fewer than \<open>foodCount * respawnThreshold\<close> items
  remain, \<open>respawnAmount\<close> new items are appended, each followed by its own \<open>food_eaten\<close>
  broadcast that carries the eaten position and the new item. The \<open>j\<close>-th new item is
  \<open>((u * 2 - 1) * mapWidth, (v * 2 - 1) * mapHeight)\<close> for the next two values \<open>u\<close>, \<open>v\<close>
  of \<open>Math.random()\<close>; as \<open>u\<close> and \<open>v\<close> range over \<open>[0, 1)\<close> these positions are exactly the
  points of the map extents (the distribution of the random values is outside the model).
  When the two do not touch, nothing changes. In particular a pass in which no player
  touches any item changes nothing, and a pass in which exactly one player touches exactly
  one item, and nobody touches anything else even after that growth and respawn, has the
  effect of that one pickup.
\<close>

theorem food_pickup:
  assumes l: "map_of (lobbies s) lobbyId = Some l"
  shows "checkFoodCollisions s lobbyId rnd
           = fst (fold (\<lambda>key st. fold (foodStep lobbyId rnd key)
                                    (rev [0..<foodCountOf (fst st) lobbyId]) st)
                    (map fst (l_players l)) (s, 0))
       \<and> (\<forall>key st. foodIndicesInRange lobbyId rnd key (rev [0..<foodCountOf (fst st) lobbyId]) st)
       \<and> (\<forall>key p i r. map_of (l_players l) key = Some p \<and> i < length (l_foodItems l)
              \<and> touchesFood p (l_foodItems l ! i) \<longrightarrow>
            rosterOf (fst (foodStep lobbyId rnd key i (s, r))) lobbyId
              = AList.map_entry key (\<lambda>p. p\<lparr>p_size := p_size p + growthRate\<rparr>) (l_players l)
          \<and> foodOf (fst (foodStep lobbyId rnd key i (s, r))) lobbyId
              = take i (l_foodItems l) @ drop (Suc i) (l_foodItems l)
                @ respawnAfter rnd r (take i (l_foodItems l) @ drop (Suc i) (l_foodItems l))
          \<and> outbox (fst (foodStep lobbyId rnd key i (s, r)))
              = outbox s
                @ toRoster s l (FoodEaten (fst (l_foodItems l ! i)) (snd (l_foodItems l ! i)) (p_id p) None)
                @ concat (map (\<lambda>nf. toRoster s l
                                 (FoodEaten (fst (l_foodItems l ! i)) (snd (l_foodItems l ! i))
                                    (p_id p) (Some nf)))
                           (respawnAfter rnd r (take i (l_foodItems l) @ drop (Suc i) (l_foodItems l))))
          \<and> snd (foodStep lobbyId rnd key i (s, r))
              = r + 2 * length (respawnAfter rnd r (take i (l_foodItems l) @ drop (Suc i) (l_foodItems l))))
       \<and> (\<forall>key p i r. map_of (l_players l) key = Some p \<and> i < length (l_foodItems l)
              \<and> \<not> touchesFood p (l_foodItems l ! i) \<longrightarrow>
            foodStep lobbyId rnd key i (s, r) = (s, r))
       \<and> (\<forall>r rest. respawnAfter rnd r rest
              = (if real (length rest) < real foodCount * respawnThreshold
                 then map (\<lambda>j. ((rnd (r + 2 * j) * 2 - 1) * mapWidth,
                                 (rnd (Suc (r + 2 * j)) * 2 - 1) * mapHeight)) [0..<respawnAmount]
                 else []))
       \<and> (\<forall>f. onMap f \<longleftrightarrow> (\<exists>u v. 0 \<le> u \<and> u < 1 \<and> 0 \<le> v \<and> v < 1
                                  \<and> f = ((u * 2 - 1) * mapWidth, (v * 2 - 1) * mapHeight)))
       \<and> ((\<forall>key p. map_of (l_players l) key = Some p \<longrightarrow>
               (\<forall>f \<in> set (l_foodItems l). \<not> touchesFood p f)) \<longrightarrow>
            checkFoodCollisions s lobbyId rnd = s)
       \<and> (\<forall>key p i. distinct (map fst (l_players l)) \<and> map_of (l_players l) key = Some p
              \<and> i < length (l_foodItems l) \<and> touchesFood p (l_foodItems l ! i)
              \<and> (\<forall>j < length (l_foodItems l). j \<noteq> i \<longrightarrow>
                    \<not> touchesFood (p\<lparr>p_size := p_size p + growthRate\<rparr>) (l_foodItems l ! j))
              \<and> (\<forall>key' q. key' \<noteq> key \<and> map_of (l_players l) key' = Some q \<longrightarrow>
                    (\<forall>f \<in> set (l_foodItems l)
                            \<union> set (respawnAfter rnd 0
                                     (take i (l_foodItems l) @ drop (Suc i) (l_foodItems l))).
                       \<not> touchesFood q f)) \<longrightarrow>
            rosterOf (checkFoodCollisions s lobbyId rnd) lobbyId
              = AList.map_entry key (\<lambda>p. p\<lparr>p_size := p_size p + growthRate\<rparr>) (l_players l)
          \<and> foodOf (checkFoodCollisions s lobbyId rnd) lobbyId
              = take i (l_foodItems l) @ drop (Suc i) (l_foodItems l)
                @ respawnAfter rnd 0 (take i (l_foodItems l) @ drop (Suc i) (l_foodItems l))
          \<and> outbox (checkFoodCollisions s lobbyId rnd)
              = outbox s
                @ toRoster s l (FoodEaten (fst (l_foodItems l ! i)) (snd (l_foodItems l ! i)) (p_id p) None)
                @ concat (map (\<lambda>nf. toRoster s l
                                 (FoodEaten (fst (l_foodItems l ! i)) (snd (l_foodItems l ! i))
                                    (p_id p) (Some nf)))
                           (respawnAfter rnd 0 (take i (l_foodItems l) @ drop (Suc i) (l_foodItems l)))))"
proof -
  have c1: "checkFoodCollisions s lobbyId rnd
           = fst (fold (\<lambda>key st. fold (foodStep lobbyId rnd key)
                                    (rev [0..<foodCountOf (fst st) lobbyId]) st)
                    (map fst (l_players l)) (s, 0))"
    using l by (simp add: checkFoodCollisions_def checkFoodPlayer_def [abs_def])
  have c2: "foodIndicesInRange lobbyId rnd key (rev [0..<foodCountOf (fst st) lobbyId]) st" for key st
    by (rule checkFoodPlayer_in_range)
  have c3: "rosterOf (fst (foodStep lobbyId rnd key i (s, r))) lobbyId
              = AList.map_entry key (\<lambda>p. p\<lparr>p_size := p_size p + growthRate\<rparr>) (l_players l)
          \<and> foodOf (fst (foodStep lobbyId rnd key i (s, r))) lobbyId
              = take i (l_foodItems l) @ drop (Suc i) (l_foodItems l)
                @ respawnAfter rnd r (take i (l_foodItems l) @ drop (Suc i) (l_foodItems l))
          \<and> outbox (fst (foodStep lobbyId rnd key i (s, r)))
              = outbox s
                @ toRoster s l (FoodEaten (fst (l_foodItems l ! i)) (snd (l_foodItems l ! i)) (p_id p) None)
                @ concat (map (\<lambda>nf. toRoster s l
                                 (FoodEaten (fst (l_foodItems l ! i)) (snd (l_foodItems l ! i))
                                    (p_id p) (Some nf)))
                           (respawnAfter rnd r (take i (l_foodItems l) @ drop (Suc i) (l_foodItems l))))
          \<and> snd (foodStep lobbyId rnd key i (s, r))
              = r + 2 * length (respawnAfter rnd r (take i (l_foodItems l) @ drop (Suc i) (l_foodItems l)))"
    if h: "map_of (l_players l) key = Some p \<and> i < length (l_foodItems l)
              \<and> touchesFood p (l_foodItems l ! i)" for key p i r
  proof -
    have p: "map_of (l_players l) key = Some p" and i: "i < length (l_foodItems l)"
      and t: "touchesFood p (l_foodItems l ! i)" using h by blast+
    note ft = foodStep_touch [OF l p i t, of rnd r]
    show ?thesis using ft(1) ft(3) ft(4) by (simp add: rosterOf_def foodOf_def)
  qed
  have c4: "foodStep lobbyId rnd key i (s, r) = (s, r)"
    if h: "map_of (l_players l) key = Some p \<and> i < length (l_foodItems l)
              \<and> \<not> touchesFood p (l_foodItems l ! i)" for key p i r
    by (rule foodStep_no_touch [where l = l and p = p]) (use l h in simp_all)
  have c7: "checkFoodCollisions s lobbyId rnd = s"
    if h: "\<forall>key p. map_of (l_players l) key = Some p \<longrightarrow>
               (\<forall>f \<in> set (l_foodItems l). \<not> touchesFood p f)"
    by (rule checkFoodCollisions_no_touch [OF l]) (use h in blast)
  have c8: "rosterOf (checkFoodCollisions s lobbyId rnd) lobbyId
              = AList.map_entry key (\<lambda>p. p\<lparr>p_size := p_size p + growthRate\<rparr>) (l_players l)
          \<and> foodOf (checkFoodCollisions s lobbyId rnd) lobbyId
              = take i (l_foodItems l) @ drop (Suc i) (l_foodItems l)
                @ respawnAfter rnd 0 (take i (l_foodItems l) @ drop (Suc i) (l_foodItems l))
          \<and> outbox (checkFoodCollisions s lobbyId rnd)
              = outbox s
                @ toRoster s l (FoodEaten (fst (l_foodItems l ! i)) (snd (l_foodItems l ! i)) (p_id p) None)
                @ concat (map (\<lambda>nf. toRoster s l
                                 (FoodEaten (fst (l_foodItems l ! i)) (snd (l_foodItems l ! i))
                                    (p_id p) (Some nf)))
                           (respawnAfter rnd 0 (take i (l_foodItems l) @ drop (Suc i) (l_foodItems l))))"
    if h: "distinct (map fst (l_players l)) \<and> map_of (l_players l) key = Some p
              \<and> i < length (l_foodItems l) \<and> touchesFood p (l_foodItems l ! i)
              \<and> (\<forall>j < length (l_foodItems l). j \<noteq> i \<longrightarrow>
                    \<not> touchesFood (p\<lparr>p_size := p_size p + growthRate\<rparr>) (l_foodItems l ! j))
              \<and> (\<forall>key' q. key' \<noteq> key \<and> map_of (l_players l) key' = Some q \<longrightarrow>
                    (\<forall>f \<in> set (l_foodItems l)
                            \<union> set (respawnAfter rnd 0
                                     (take i (l_foodItems l) @ drop (Suc i) (l_foodItems l))).
                       \<not> touchesFood q f))" for key p i
  proof -
    have d: "distinct (map fst (l_players l))" and p: "map_of (l_players l) key = Some p"
      and i: "i < length (l_foodItems l)" and t: "touchesFood p (l_foodItems l ! i)"
      and oi: "\<And>j. j < length (l_foodItems l) \<Longrightarrow> j \<noteq> i
               \<Longrightarrow> \<not> touchesFood (p\<lparr>p_size := p_size p + growthRate\<rparr>) (l_foodItems l ! j)"
      and oq: "\<And>key' q f. key' \<noteq> key \<Longrightarrow> map_of (l_players l) key' = Some q
               \<Longrightarrow> f \<in> set (l_foodItems l)
                      \<union> set (respawnAfter rnd 0 (take i (l_foodItems l) @ drop (Suc i) (l_foodItems l)))
               \<Longrightarrow> \<not> touchesFood q f"
      using h by blast+
    have e: "checkFoodCollisions s lobbyId rnd = fst (foodStep lobbyId rnd key i (s, 0))"
      by (rule checkFoodCollisions_single [OF l d p i t oi oq])
    have "map_of (l_players l) key = Some p \<and> i < length (l_foodItems l)
              \<and> touchesFood p (l_foodItems l ! i)" using p i t by blast
    from c3 [OF this, of 0] show ?thesis unfolding e by blast
  qed
  show ?thesis
    apply (intro conjI allI impI)
    subgoal by (rule c1)
    subgoal for key st by (rule c2)
    subgoal for key p i r using c3 [of key p i r] by blast
    subgoal for key p i r using c3 [of key p i r] by blast
    subgoal for key p i r using c3 [of key p i r] by blast
    subgoal for key p i r using c3 [of key p i r] by blast
    subgoal for key p i r using c4 [of key p i r] by blast
    subgoal for r rest by (rule respawnAfter_explicit)
    subgoal for f by (rule onMap_iff)
    subgoal by (rule c7)
    subgoal for key p i using c8 [of key p i] by blast
    subgoal for key p i using c8 [of key p i] by blast
    subgoal for key p i using c8 [of key p i] by blast
    done
qed

theorem food_pickup_witness:
  "touchesFood playerA (0, 0)
   \<and> map_option p_size
        (map_of (rosterOf (checkFoodCollisions (arena playerA farB [(0, 0)]) ''L'' rampAt) ''L'') ''pA'')
       = Some (21 / 20)
   \<and> foodOf (checkFoodCollisions (arena playerA farB [(0, 0)]) ''L'' rampAt) ''L''
       = [(- 20, - (27 / 2)), (- 16, - (21 / 2)), (- 12, - (15 / 2)), (- 8, - (9 / 2)),
          (- 4, - (3 / 2)), (0, 3 / 2), (4, 9 / 2), (8, 15 / 2), (12, 21 / 2), (16, 27 / 2)]
   \<and> take 4 (outbox (checkFoodCollisions (arena playerA farB [(0, 0)]) ''L'' rampAt))
       = [(''c1'', FoodEaten 0 0 ''pA'' None), (''c2'', FoodEaten 0 0 ''pA'' None),
          (''c1'', FoodEaten 0 0 ''pA'' (Some (- 20, - (27 / 2)))),
          (''c2'', FoodEaten 0 0 ''pA'' (Some (- 20, - (27 / 2))))]
   \<and> length (outbox (checkFoodCollisions (arena playerA farB [(0, 0)]) ''L'' rampAt)) = 22
   \<and> \<not> touchesFood playerA (5, 5) \<and> \<not> touchesFood farB (5, 5)
   \<and> checkFoodCollisions (arena playerA farB [(5, 5)]) ''L'' rampAt = arena playerA farB [(5, 5)]"
proof -
  let ?s = "arena playerA farB [(0, 0)]"
  let ?l = "arenaLobby playerA farB [(0, 0)]"
  let ?n = "arena playerA farB [(5, 5)]"
  let ?ln = "arenaLobby playerA farB [(5, 5)]"
  let ?new = "[(- 20, - (27 / 2)), (- 16, - (21 / 2)), (- 12, - (15 / 2)), (- 8, - (9 / 2)),
          (- 4, - (3 / 2)), (0, 3 / 2), (4, 9 / 2), (8, 15 / 2), (12, 21 / 2), (16, 27 / 2)] :: (real \<times> real) list"
  have ls: "map_of (lobbies ?s) ''L'' = Some ?l" by (simp add: arena_def)
  have ln: "map_of (lobbies ?n) ''L'' = Some ?ln" by (simp add: arena_def)
  have ro: "l_players ?l = [(''pA'', playerA), (''pB'', farB)]" "l_foodItems ?l = [(0, 0)]"
    "l_players ?ln = [(''pA'', playerA), (''pB'', farB)]" "l_foodItems ?ln = [(5, 5)]"
    by (simp_all add: arenaLobby_def)
  have t: "touchesFood playerA (0, 0)"
    by (simp add: touchesFood_def arena_defs foodSize_def)
  have resp: "respawnAfter rampAt 0 [] = ?new"
    by (simp add: respawnAfter_def respawnBatch_def foodCount_def respawnThreshold_def
        respawnAmount_def randomFood_def rampAt_def mapWidth_def mapHeight_def
        upt_rec [of _ "numeral _"] upt_rec [of _ "Suc _"])
  have far: "\<forall>f \<in> set [(0, 0)] \<union> set ?new. \<not> touchesFood farB f"
    by (simp add: touchesFood_sq farB_def arena_defs foodSize_def)
  have none: "\<not> touchesFood playerA (5, 5)" "\<not> touchesFood farB (5, 5)"
    by (simp_all add: touchesFood_sq farB_def arena_defs foodSize_def)
  have hyp: "distinct (map fst (l_players ?l)) \<and> map_of (l_players ?l) ''pA'' = Some playerA
              \<and> 0 < length (l_foodItems ?l) \<and> touchesFood playerA (l_foodItems ?l ! 0)
              \<and> (\<forall>j < length (l_foodItems ?l). j \<noteq> 0 \<longrightarrow>
                    \<not> touchesFood (playerA\<lparr>p_size := p_size playerA + growthRate\<rparr>) (l_foodItems ?l ! j))
              \<and> (\<forall>key' q. key' \<noteq> ''pA'' \<and> map_of (l_players ?l) key' = Some q \<longrightarrow>
                    (\<forall>f \<in> set (l_foodItems ?l)
                            \<union> set (respawnAfter rampAt 0
                                     (take 0 (l_foodItems ?l) @ drop (Suc 0) (l_foodItems ?l))).
                       \<not> touchesFood q f))"
    unfolding ro using t far by (simp add: resp)
  have rc: "recipients ?s ?l = [''c1'', ''c2'']"
    unfolding recipients_def ro
    by (simp add: isOpen_def arena_def arenaClient_def playerA_def playerB_def farB_def newPlayer_def)
  have os: "outbox ?s = []" by (simp add: arena_def)
  note fp = food_pickup [OF ls, of rampAt, THEN conjunct2, THEN conjunct2, THEN conjunct2,
      THEN conjunct2, THEN conjunct2, THEN conjunct2, THEN conjunct2, rule_format,
      of "''pA''" playerA 0, OF hyp]
  have r1: "rosterOf (checkFoodCollisions ?s ''L'' rampAt) ''L''
              = AList.map_entry ''pA'' (\<lambda>p. p\<lparr>p_size := p_size p + growthRate\<rparr>) (l_players ?l)"
    and r2: "foodOf (checkFoodCollisions ?s ''L'' rampAt) ''L''
              = take 0 (l_foodItems ?l) @ drop (Suc 0) (l_foodItems ?l)
                @ respawnAfter rampAt 0 (take 0 (l_foodItems ?l) @ drop (Suc 0) (l_foodItems ?l))"
    and r3: "outbox (checkFoodCollisions ?s ''L'' rampAt)
              = outbox ?s
                @ toRoster ?s ?l (FoodEaten (fst (l_foodItems ?l ! 0)) (snd (l_foodItems ?l ! 0)) (p_id playerA) None)
                @ concat (map (\<lambda>nf. toRoster ?s ?l
                                 (FoodEaten (fst (l_foodItems ?l ! 0)) (snd (l_foodItems ?l ! 0))
                                    (p_id playerA) (Some nf)))
                           (respawnAfter rampAt 0 (take 0 (l_foodItems ?l) @ drop (Suc 0) (l_foodItems ?l))))"
    using fp by (rule conjunct1, rule conjunct2 [THEN conjunct1], rule conjunct2 [THEN conjunct2])
  have w1: "map_option p_size
        (map_of (rosterOf (checkFoodCollisions ?s ''L'' rampAt) ''L'') ''pA'') = Some (21 / 20)"
    unfolding r1 ro by (simp add: playerA_def newPlayer_def playerStartSize_def growthRate_def)
  have w2: "foodOf (checkFoodCollisions ?s ''L'' rampAt) ''L'' = ?new"
    unfolding r2 ro by (simp add: resp)
  have w3: "take 4 (outbox (checkFoodCollisions ?s ''L'' rampAt))
       = [(''c1'', FoodEaten 0 0 ''pA'' None), (''c2'', FoodEaten 0 0 ''pA'' None),
          (''c1'', FoodEaten 0 0 ''pA'' (Some (- 20, - (27 / 2)))),
          (''c2'', FoodEaten 0 0 ''pA'' (Some (- 20, - (27 / 2))))]"
    and w4: "length (outbox (checkFoodCollisions ?s ''L'' rampAt)) = 22"
    unfolding r3 ro os toRoster_def rc
    by (simp_all add: resp playerA_def newPlayer_def)
  have nn: "\<forall>key p. map_of (l_players ?ln) key = Some p \<longrightarrow>
               (\<forall>f \<in> set (l_foodItems ?ln). \<not> touchesFood p f)"
    unfolding ro using none by auto
  have w5: "checkFoodCollisions ?n ''L'' rampAt = ?n"
    by (rule food_pickup [OF ln, of rampAt, THEN conjunct2, THEN conjunct2, THEN conjunct2,
          THEN conjunct2, THEN conjunct2, THEN conjunct2, THEN conjunct1, THEN mp, OF nn])
  show ?thesis using t w1 w2 w3 w4 none w5 by (intro conjI)
qed

subsection \<open>Player sizes\<close>

lemma grown_refl [simp]: "grown ps ps"
  by (auto simp add: grown_def)


lemma grown_subset: "set ps' \<subseteq> set ps \<Longrightarrow> grown ps ps'"
  by (auto simp add: grown_def)

lemma set_delete_subset: "set (AList.delete k ps) \<subseteq> set ps"
  by (auto simp add: AList.delete_eq)

lemma grown_delete [simp]: "grown ps (AList.delete k ps)"
  by (rule grown_subset) (rule set_delete_subset)


lemma map_fst_map_entry [simp]: "map fst (AList.map_entry k f ps) = map fst ps"
  by (induction ps) auto


lemma wfRoster_Nil [simp]: "wfRoster []"
  by (simp add: wfRoster_def)







lemma wellFormed_cong: "lobbies s' = lobbies s \<Longrightarrow> wellFormed s' = wellFormed s"
  by (simp add: wellFormed_def)

lemma wellFormed_updLobby:
  assumes "wellFormed s" and "\<And>l. wfRoster (l_players l) \<Longrightarrow> wfRoster (l_players (f l))"
  shows "wellFormed (updLobby lid f s)"
  using assms by (auto simp add: wellFormed_def)

lemma rosterOf_updLobby:
  "rosterOf (updLobby lid f s) lid' =
     (if lid' = lid then (case map_of (lobbies s) lid of None \<Rightarrow> [] | Some l \<Rightarrow> l_players (f l))
      else rosterOf s lid')"
  by (simp add: rosterOf_def split: option.splits)

lemma rosterOf_cong: "lobbies s' = lobbies s \<Longrightarrow> rosterOf s' lid = rosterOf s lid"
  by (simp add: rosterOf_def)


lemma wf_sendToClient [simp]: "wellFormed (sendToClient s c m) = wellFormed s"
  by (rule wellFormed_cong) simp
lemma wf_broadcastToLobby [simp]: "wellFormed (broadcastToLobby s l m) = wellFormed s"
  by (rule wellFormed_cong) simp
lemma wf_broadcastLobbyUpdate [simp]: "wellFormed (broadcastLobbyUpdate s l) = wellFormed s"
  by (rule wellFormed_cong) simp
lemma wf_setTimer [simp]: "wellFormed (setTimer t s) = wellFormed s"
  by (rule wellFormed_cong) simp
lemma wf_clearTimer [simp]: "wellFormed (clearTimer h s) = wellFormed s"
  by (rule wellFormed_cong) simp
lemma wf_clients_update [simp]: "wellFormed (s\<lparr>clients := cs\<rparr>) = wellFormed s"
  by (rule wellFormed_cong) simp
lemma wf_outbox_update [simp]: "wellFormed (s\<lparr>outbox := ob\<rparr>) = wellFormed s"
  by (rule wellFormed_cong) simp

lemma rosterOf_sendToClient [simp]: "rosterOf (sendToClient s c m) lid = rosterOf s lid"
  by (rule rosterOf_cong) simp
lemma rosterOf_broadcastToLobby [simp]: "rosterOf (broadcastToLobby s l m) lid = rosterOf s lid"
  by (rule rosterOf_cong) simp
lemma rosterOf_setTimer [simp]: "rosterOf (setTimer t s) lid = rosterOf s lid"
  by (rule rosterOf_cong) simp
lemma rosterOf_clearTimer [simp]: "rosterOf (clearTimer h s) lid = rosterOf s lid"
  by (rule rosterOf_cong) simp
lemma rosterOf_clients_update [simp]: "rosterOf (s\<lparr>clients := cs\<rparr>) lid = rosterOf s lid"
  by (rule rosterOf_cong) simp





lemma wf_endGame: "wellFormed s \<Longrightarrow> wellFormed (endGame s lid w)"
  by (auto simp add: endGame_def Let_def intro!: wellFormed_updLobby split: option.splits)

lemma rosterOf_endGame_any [simp]: "rosterOf (endGame s lid w) lid' = rosterOf s lid'"
  by (auto simp add: endGame_def Let_def rosterOf_updLobby rosterOf_def split: option.splits)










lemma wf_closePlayer [simp]: "wellFormed (closePlayer p s) = wellFormed s"
  by (simp add: closePlayer_def Let_def split: option.splits)


lemma wf_detachLobby [simp]: "wellFormed (detachLobby lid s) = wellFormed s"
  by (simp add: wellFormed_def)




lemma wf_detached_update [simp]: "wellFormed (s\<lparr>detached := ds\<rparr>) = wellFormed s"
  by (simp add: wellFormed_def)


lemma keeps_refl [simp]: "keeps lid s s"
  by (simp add: keeps_def)


lemma keeps_cong:
  assumes "lobbies s' = lobbies s"
  shows "keeps lid s s'"
  unfolding keeps_def wellFormed_cong [OF assms] rosterOf_cong [OF assms] by simp





lemma keeps_sendToClient [simp]: "keeps lid s (sendToClient s c m)"
  by (rule keeps_cong) simp

lemma keeps_endGame [simp]: "keeps lid s (endGame s lid' w)"
  by (simp add: keeps_def wf_endGame)


































end
